theory Spec2Isabelle
  imports Main
begin

section \<open>Effects shared by the embedded packages\<close>

text \<open>
  A Go \<open>error\<close> is represented by its message. A call that returns \<open>(value, error)\<close>
  and whose value is dropped by every caller when the error is set is a sum, with
  \<open>Inl\<close> for the error.
\<close>

type_synonym error = string

text \<open>
  \<open>atexit.ExitWithMessage code msg\<close> ends the process, and indexing a slice out of range
  panics. Both are outcomes of a run, next to returning a value.
\<close>

datatype 'a outcome = Done 'a | Exit nat string | Panic

definition nl :: string where
  "nl = [CHR 0x0A]"

definition tab :: string where
  "tab = [CHR 0x09]"

section \<open>pkg/minishift/network\<close>

record NetworkSettings =
  Device :: string
  IPAddress :: string
  Netmask :: string
  Gateway :: string
  DNS1 :: string
  DNS2 :: string
  UseDHCP :: bool
  Disabled :: bool

text \<open>The zero value of the struct: a composite literal leaves unnamed fields at it.\<close>

definition zeroSettings :: NetworkSettings where
  "zeroSettings = \<lparr>Device = [], IPAddress = [], Netmask = [], Gateway = [], DNS1 = [],
     DNS2 = [], UseDHCP = False, Disabled = False\<rparr>"

text \<open>
  Modelled from the spec: the hypervisor kind consumed by the configurator. The
  predicates \<open>IsVirtualBox\<close>, \<open>IsKVM\<close>, \<open>IsHyperV\<close> and \<open>IsXhyve\<close> of the
  \<open>minishiftConfig\<close> package test one enumerated tag; any other driver is
  \<open>OtherHypervisor\<close>.
\<close>

datatype HypervisorKind = VIRTUALBOX | KVM | HYPERV | XHYVE | OtherHypervisor string

text \<open>
  Modelled from the spec: the fields of \<open>minishiftConfig.InstanceConfig\<close> that this
  package reads and writes.
\<close>

record InstanceConfig =
  cfgIPAddress :: string
  IsRHELBased :: bool
  SupportsNetworkAssignment :: bool
  VMDriver :: HypervisorKind

definition IsVirtualBox :: "InstanceConfig \<Rightarrow> bool" where
  "IsVirtualBox c = (VMDriver c = VIRTUALBOX)"

definition IsKVM :: "InstanceConfig \<Rightarrow> bool" where
  "IsKVM c = (VMDriver c = KVM)"

definition IsHyperV :: "InstanceConfig \<Rightarrow> bool" where
  "IsHyperV c = (VMDriver c = HYPERV)"

definition IsXhyve :: "InstanceConfig \<Rightarrow> bool" where
  "IsXhyve c = (VMDriver c = XHYVE)"

text \<open>
  The driver of the guest: what \<open>driver.GetIP()\<close> answers and what the remote channel
  (\<open>drivers.RunSSHCommandFromDriver\<close>) answers to a command.
\<close>

record Driver =
  drvGetIP :: "error + string"
  drvSSH :: "string \<Rightarrow> error + string"

text \<open>
  The state a run can change or that an observer can see: the global
  \<open>InstanceConfig\<close>, what \<open>InstanceConfig.Write()\<close> flushed last, standard output
  (one entry per \<open>fmt.Println\<close>), the commands sent over the channel, the number of
  \<open>driver.GetIP()\<close> calls, and the arguments of each \<open>WriteNetworkSettingsToHost\<close> call.
\<close>

record World =
  config :: InstanceConfig
  stored :: InstanceConfig
  stdout :: "string list"
  sshLog :: "string list"
  getIPCalls :: nat
  writeCalls :: "NetworkSettings list"

type_synonym 'a prog = "World \<Rightarrow> 'a outcome \<times> World"

definition ret :: "'a \<Rightarrow> 'a prog" where
  "ret a w = (Done a, w)"

definition andThen :: "'a prog \<Rightarrow> ('a \<Rightarrow> 'b prog) \<Rightarrow> 'b prog" where
  "andThen m f w =
     (case m w of
        (Done a, w') \<Rightarrow> f a w'
      | (Exit c msg, w') \<Rightarrow> (Exit c msg, w')
      | (Panic, w') \<Rightarrow> (Panic, w'))"

definition ExitWithMessage :: "nat \<Rightarrow> string \<Rightarrow> 'a prog" where
  "ExitWithMessage c msg w = (Exit c msg, w)"

definition Println :: "string \<Rightarrow> unit prog" where
  "Println line w = (Done (), w\<lparr>stdout := stdout w @ [line]\<rparr>)"

definition driverGetIP :: "Driver \<Rightarrow> (error + string) prog" where
  "driverGetIP driver w = (Done (drvGetIP driver), w\<lparr>getIPCalls := Suc (getIPCalls w)\<rparr>)"

definition RunSSHCommandFromDriver :: "Driver \<Rightarrow> string \<Rightarrow> (error + string) prog" where
  "RunSSHCommandFromDriver driver cmd w =
     (Done (drvSSH driver cmd), w\<lparr>sshLog := sshLog w @ [cmd]\<rparr>)"

text \<open>Modelled from the spec: \<open>InstanceConfig.Write()\<close> flushes the global to the store.\<close>

definition InstanceConfigWrite :: "unit prog" where
  "InstanceConfigWrite w = (Done (), w\<lparr>stored := config w\<rparr>)"

text \<open>Reading \<open>xs[i]\<close>: out of range is a panic.\<close>

definition index :: "'a list \<Rightarrow> nat \<Rightarrow> 'a prog" where
  "index xs i w = (if i < length xs then (Done (xs ! i), w) else (Panic, w))"

subsection \<open>Constants\<close>

definition configureIPAddressMessage :: string where
  "configureIPAddressMessage = ''-- Set the following network settings to VM ...''"

definition configureRestartNeededMessage :: string where
  "configureRestartNeededMessage = ''Network settings get applied to the instance on restart''"

definition configureNetworkNotSupportedMessage :: string where
  "configureNetworkNotSupportedMessage = ''The Minishift VM does not support network assignment''"

text \<open>
  A template of \<open>text/template\<close> after parsing: literal text and field actions
  \<open>{{.Name}}\<close>. The three templates of the package use nothing else.
\<close>

datatype node = Text string | Field string

definition configureNetworkScriptStaticAddressTemplate :: "node list" where
  "configureNetworkScriptStaticAddressTemplate =
     [Text ''DEVICE='', Field ''Device'', Text nl,
      Text ''IPADDR='', Field ''IPAddress'', Text nl,
      Text ''NETMASK='', Field ''Netmask'', Text nl,
      Text ''GATEWAY='', Field ''Gateway'', Text nl,
      Text ''DNS1='', Field ''DNS1'', Text nl,
      Text ''DNS2='', Field ''DNS2'', Text nl]"

definition configureNetworkScriptDynamicAddressTemplate :: "node list" where
  "configureNetworkScriptDynamicAddressTemplate =
     [Text ''DEVICE='', Field ''Device'', Text nl,
      Text ''USEDHCP='', Field ''UseDHCP'', Text nl]"

definition configureNetworkScriptDisabledAddressTemplate :: "node list" where
  "configureNetworkScriptDisabledAddressTemplate =
     [Text ''DEVICE='', Field ''Device'', Text nl,
      Text ''DISABLED='', Field ''Disabled'', Text nl]"

text \<open>How \<open>text/template\<close> prints a bool.\<close>

definition showBool :: "bool \<Rightarrow> string" where
  "showBool b = (if b then ''true'' else ''false'')"

text \<open>The value of a field action on a \<open>NetworkSettings\<close>; no such field is an error.\<close>

definition fieldValue :: "string \<Rightarrow> NetworkSettings \<Rightarrow> error + string" where
  "fieldValue name ns =
     (if name = ''Device'' then Inr (Device ns)
      else if name = ''IPAddress'' then Inr (IPAddress ns)
      else if name = ''Netmask'' then Inr (Netmask ns)
      else if name = ''Gateway'' then Inr (Gateway ns)
      else if name = ''DNS1'' then Inr (DNS1 ns)
      else if name = ''DNS2'' then Inr (DNS2 ns)
      else if name = ''UseDHCP'' then Inr (showBool (UseDHCP ns))
      else if name = ''Disabled'' then Inr (showBool (Disabled ns))
      else Inl (''can't evaluate field '' @ name))"

text \<open>\<open>tmpl.Execute(result, networkSettings)\<close>: the rendered text, or the first error.\<close>

fun Execute :: "node list \<Rightarrow> NetworkSettings \<Rightarrow> error + string" where
  "Execute [] ns = Inr []"
| "Execute (Text t # rest) ns =
     (case Execute rest ns of Inl e \<Rightarrow> Inl e | Inr out \<Rightarrow> Inr (t @ out))"
| "Execute (Field f # rest) ns =
     (case fieldValue f ns of
        Inl e \<Rightarrow> Inl e
      | Inr v \<Rightarrow> (case Execute rest ns of Inl e \<Rightarrow> Inl e | Inr out \<Rightarrow> Inr (v @ out)))"

subsection \<open>Functions\<close>

definition GetIP :: "Driver \<Rightarrow> (error + string) prog" where
  "GetIP driver w =
     (let configuredIP = cfgIPAddress (config w) in
      if configuredIP \<noteq> [] then (Done (Inr configuredIP), w)
      else andThen (driverGetIP driver)
             (\<lambda>r. case r of Inl err \<Rightarrow> ret (Inl err) | Inr ip \<Rightarrow> ret (Inr ip)) w)"

definition checkSupportForAddressAssignment :: "bool prog" where
  "checkSupportForAddressAssignment w =
     (if IsRHELBased (config w) \<and> SupportsNetworkAssignment (config w) then ret True w
      else andThen (ExitWithMessage 1 configureNetworkNotSupportedMessage)
             (\<lambda>_ :: unit. ret False) w)"

definition fillNetworkSettingsScript :: "NetworkSettings \<Rightarrow> string prog" where
  "fillNetworkSettingsScript networkSettings =
     (let tmpl =
        (if Disabled networkSettings then configureNetworkScriptDisabledAddressTemplate
         else if UseDHCP networkSettings then configureNetworkScriptDynamicAddressTemplate
         else configureNetworkScriptStaticAddressTemplate)
      in case Execute tmpl networkSettings of
           Inl err \<Rightarrow> ExitWithMessage 1 (''Error executing network script template: '' @ err)
         | Inr result \<Rightarrow> ret result)"

subsection \<open>Library functions used by the package\<close>

text \<open>
  \<open>strings.TrimSpace\<close> on the white space of ASCII (the guest's command output is
  treated as bytes), and \<open>strings.Split\<close> for a separator of one character: the result
  always has at least one element.
\<close>

definition isSpace :: "char \<Rightarrow> bool" where
  "isSpace c = (c \<in> set [CHR 0x09, CHR 0x0A, CHR 0x0B, CHR 0x0C, CHR 0x0D, CHR 0x20])"

definition TrimSpace :: "string \<Rightarrow> string" where
  "TrimSpace s = rev (dropWhile isSpace (rev (dropWhile isSpace s)))"

fun Split :: "string \<Rightarrow> char \<Rightarrow> string list" where
  "Split [] sep = [[]]"
| "Split (c # cs) sep =
     (if c = sep then [] # Split cs sep
      else (case Split cs sep of
              [] \<Rightarrow> [[c]]
            | part # parts \<Rightarrow> (c # part) # parts))"

text \<open>\<open>base64.StdEncoding.EncodeToString\<close>: three bytes to four characters, padded with \<open>=\<close>.\<close>

definition encodeStd :: string where
  "encodeStd = ''ABCDEFGHIJKLMNOPQRSTUVWXYZabcdefghijklmnopqrstuvwxyz0123456789+/''"

definition sextet :: "nat \<Rightarrow> char" where
  "sextet n = encodeStd ! (n mod 64)"

fun EncodeBytes :: "nat list \<Rightarrow> string" where
  "EncodeBytes [] = []"
| "EncodeBytes [a] = [sextet (a div 4), sextet ((a mod 4) * 16), CHR ''='', CHR ''='']"
| "EncodeBytes [a, b] =
     [sextet (a div 4), sextet ((a mod 4) * 16 + b div 16), sextet ((b mod 16) * 4), CHR ''='']"
| "EncodeBytes (a # b # c # rest) =
     [sextet (a div 4), sextet ((a mod 4) * 16 + b div 16),
      sextet ((b mod 16) * 4 + c div 64), sextet (c mod 64)] @ EncodeBytes rest"

definition EncodeToString :: "string \<Rightarrow> string" where
  "EncodeToString s = EncodeBytes (map of_char s)"

subsection \<open>Applying and discovering settings\<close>

definition writeCommand :: "string \<Rightarrow> string \<Rightarrow> string" where
  "writeCommand encodedScript device =
     ''echo '' @ encodedScript @
     '' | base64 --decode | sudo tee /var/lib/minishift/networking-'' @ device @
     '' > /dev/null''"

definition WriteNetworkSettingsToHost :: "Driver \<Rightarrow> NetworkSettings \<Rightarrow> bool prog" where
  "WriteNetworkSettingsToHost driver networkSettings w =
     andThen (fillNetworkSettingsScript networkSettings)
       (\<lambda>networkScript.
          let encodedScript = EncodeToString networkScript;
              cmd = writeCommand encodedScript (Device networkSettings)
          in andThen (RunSSHCommandFromDriver driver cmd)
               (\<lambda>r. case r of
                       Inl err \<Rightarrow> andThen (Println ''FAIL'') (\<lambda>_. ret False)
                     | Inr _ \<Rightarrow> andThen (Println ''OK'') (\<lambda>_. ret True)))
       (w\<lparr>writeCalls := writeCalls w @ [networkSettings]\<rparr>)"

definition printNetworkSettings :: "NetworkSettings \<Rightarrow> unit prog" where
  "printNetworkSettings networkSettings =
     andThen (Println configureIPAddressMessage) (\<lambda>_.
     andThen (Println (''   Device:     '' @ '' '' @ Device networkSettings)) (\<lambda>_.
     andThen (Println (''   IP Address: '' @ '' '' @
                IPAddress networkSettings @ ''/'' @ Netmask networkSettings)) (\<lambda>_.
     andThen (if Gateway networkSettings \<noteq> []
              then Println (''   Gateway:    '' @ '' '' @ Gateway networkSettings)
              else ret ()) (\<lambda>_.
     if DNS1 networkSettings \<noteq> []
     then Println (''   Nameservers:'' @ '' '' @
            DNS1 networkSettings @ '' '' @ DNS2 networkSettings)
     else ret ()))))"

text \<open>The four queries of the discovery; \<open>sq\<close> is the single quote of the shell.\<close>

definition sq :: string where
  "sq = [CHR 0x27]"

definition deviceCommand :: "string \<Rightarrow> string" where
  "deviceCommand instanceip =
     ''ip a |grep -i '' @ sq @ instanceip @ sq @ '' | awk '' @ sq @ ''{print $NF}'' @ sq @
     '' | tr -d '' @ sq @ nl @ sq"

definition addressCommand :: "string \<Rightarrow> string" where
  "addressCommand device =
     ''ip -o -f inet addr show '' @ device @
     '' | head -n1 | awk '' @ sq @ ''/scope global/ {print $4}'' @ sq"

definition resolveCommand :: string where
  "resolveCommand =
     ''cat /etc/resolv.conf |grep -i '' @ sq @ ''^nameserver'' @ sq @
     '' | cut -d '' @ sq @ '' '' @ sq @ '' -f2 | tr '' @ sq @ nl @ sq @ '' '' @ sq @ '' '' @ sq"

definition gatewayCommand :: string where
  "gatewayCommand =
     ''route -n | grep '' @ sq @ ''UG[ '' @ tab @ '']'' @ sq @
     '' | awk '' @ sq @ ''{print $2}'' @ sq @ '' | tr -d '' @ sq @ nl @ sq"

text \<open>A failed query ends the process; a successful one gives its output.\<close>

definition orExit :: "string \<Rightarrow> (error + string) \<Rightarrow> string prog" where
  "orExit what r =
     (case r of Inl err \<Rightarrow> ExitWithMessage 1 (what @ err) | Inr out \<Rightarrow> ret out)"

definition GetNetworkSettingsForHost :: "Driver \<Rightarrow> NetworkSettings prog" where
  "GetNetworkSettingsForHost driver =
     andThen (driverGetIP driver) (\<lambda>r.
     andThen (orExit ''Error getting IP address: '' r) (\<lambda>instanceip.
     andThen (if instanceip = []
              then ExitWithMessage 1 (''Error getting IP address: '' @ ''No address available'')
              else ret ()) (\<lambda>_.
     andThen (RunSSHCommandFromDriver driver (deviceCommand instanceip)) (\<lambda>r.
     andThen (orExit ''Error getting device: '' r) (\<lambda>device.
     andThen (RunSSHCommandFromDriver driver (addressCommand device)) (\<lambda>r.
     andThen (orExit ''Error getting netmask: '' r) (\<lambda>addressInfo.
     andThen (index (Split (TrimSpace addressInfo) CHR ''/'') 0) (\<lambda>ipAddress.
     andThen (index (Split (TrimSpace addressInfo) CHR ''/'') 1) (\<lambda>netmask.
     andThen (RunSSHCommandFromDriver driver resolveCommand) (\<lambda>r.
     andThen (orExit ''Error getting nameserver: '' r) (\<lambda>resolveInfo.
     let nameservers = Split (TrimSpace resolveInfo) CHR '' '' in
     andThen (RunSSHCommandFromDriver driver gatewayCommand) (\<lambda>r.
     andThen (orExit ''Error getting gateway: '' r) (\<lambda>gateway.
     andThen (index nameservers 0) (\<lambda>dns1.
     let networkSettings = zeroSettings\<lparr>Device := device, IPAddress := ipAddress,
           Netmask := netmask, Gateway := gateway, DNS1 := dns1\<rparr>
     in ret (if length nameservers > 1
             then networkSettings\<lparr>DNS2 := nameservers ! 1\<rparr>
             else networkSettings)))))))))))))))"

definition eth0DHCP :: NetworkSettings where
  "eth0DHCP = zeroSettings\<lparr>Device := ''eth0'', UseDHCP := True\<rparr>"

definition eth1DHCP :: NetworkSettings where
  "eth1DHCP = zeroSettings\<lparr>Device := ''eth1'', UseDHCP := True\<rparr>"

definition eth1Disabled :: NetworkSettings where
  "eth1Disabled = zeroSettings\<lparr>Device := ''eth1'', Disabled := True\<rparr>"

definition ConfigureDynamicAssignment :: "Driver \<Rightarrow> unit prog" where
  "ConfigureDynamicAssignment driver =
     andThen checkSupportForAddressAssignment (\<lambda>supported.
     andThen (if supported then Println ''Dynamic assignment of IP address'' else ret ()) (\<lambda>_.
     let networkSettingsEth0 = eth0DHCP in
     andThen (WriteNetworkSettingsToHost driver networkSettingsEth0) (\<lambda>_.
     let networkSettingsEth1 = eth1DHCP in
     andThen (WriteNetworkSettingsToHost driver networkSettingsEth1) (\<lambda>_.
     Println configureRestartNeededMessage))))"

definition setIPAddress :: "string \<Rightarrow> unit prog" where
  "setIPAddress ip w = (Done (), w\<lparr>config := (config w)\<lparr>cfgIPAddress := ip\<rparr>\<rparr>)"

text \<open>
  The two companion policies of the static mode, each guarded by its own test of the
  hypervisor, in the order of the source.
\<close>

definition twoInterfaces :: "Driver \<Rightarrow> NetworkSettings \<Rightarrow> unit prog" where
  "twoInterfaces driver networkSettings w =
     (if IsVirtualBox (config w) \<or> IsKVM (config w)
      then andThen (Println ''vbox or kvm'') (\<lambda>_.
           let dhcpNetworkSettings = eth0DHCP in
           andThen (WriteNetworkSettingsToHost driver networkSettings) (\<lambda>_.
           andThen (WriteNetworkSettingsToHost driver dhcpNetworkSettings) (\<lambda>_.
           ret ()))) w
      else ret () w)"

definition singleInterface :: "Driver \<Rightarrow> NetworkSettings \<Rightarrow> unit prog" where
  "singleInterface driver networkSettings w =
     (if IsHyperV (config w) \<or> IsXhyve (config w)
      then andThen (Println ''hyperv or xhyve'') (\<lambda>_.
           let disabledNetworkSettings = eth1Disabled in
           andThen (WriteNetworkSettingsToHost driver networkSettings) (\<lambda>_.
           andThen (WriteNetworkSettingsToHost driver disabledNetworkSettings) (\<lambda>_.
           ret ()))) w
      else ret () w)"

definition ConfigureStaticAssignment :: "Driver \<Rightarrow> unit prog" where
  "ConfigureStaticAssignment driver =
     andThen checkSupportForAddressAssignment (\<lambda>supported.
     andThen (if supported then Println ''Static assignment of IP address'' else ret ()) (\<lambda>_.
     andThen (GetNetworkSettingsForHost driver) (\<lambda>networkSettings.
     andThen (twoInterfaces driver networkSettings) (\<lambda>_.
     andThen (singleInterface driver networkSettings) (\<lambda>_.
     andThen (printNetworkSettings networkSettings) (\<lambda>_.
     andThen (setIPAddress (IPAddress networkSettings)) (\<lambda>_.
     andThen InstanceConfigWrite (\<lambda>_.
     Println configureRestartNeededMessage))))))))"

section \<open>pkg/minikube/provisioner: the storage driver\<close>

text \<open>
  The provisioner's remote channel \<open>p.SSHCommand\<close>, and what a run leaves behind: the
  commands sent and the lines written by \<open>log.Debugf\<close>.
\<close>

record Provisioner =
  SSHCommand :: "string \<Rightarrow> error + string"

record ProvisionLog =
  sshCommands :: "string list"
  debugLog :: "string list"

definition getFilesystemType ::
  "Provisioner \<Rightarrow> string \<Rightarrow> ProvisionLog \<Rightarrow> (error + string) \<times> ProvisionLog" where
  "getFilesystemType p directory l =
     (let cmd = ''stat -f -c %T '' @ directory;
          l' = l\<lparr>sshCommands := sshCommands l @ [cmd]\<rparr>
      in case SSHCommand p cmd of
           Inl err \<Rightarrow> (Inl (''Error looking up file system type: '' @ err), l')
         | Inr statCommandOutput \<Rightarrow> (Inr (TrimSpace statCommandOutput), l'))"

text \<open>
  The deferred function runs at every return after its \<open>defer\<close> statement, with the
  value \<open>bestSuitedDriver\<close> has then.
\<close>

definition deferredDebug :: "string \<Rightarrow> ProvisionLog \<Rightarrow> ProvisionLog" where
  "deferredDebug bestSuitedDriver l =
     (if bestSuitedDriver \<noteq> []
      then l\<lparr>debugLog := debugLog l @
             [''No storage driver specified, instead using '' @ bestSuitedDriver @ nl]\<rparr>
      else l)"

definition decideStorageDriver ::
  "Provisioner \<Rightarrow> string \<Rightarrow> string \<Rightarrow> ProvisionLog \<Rightarrow> (error + string) \<times> ProvisionLog" where
  "decideStorageDriver p defaultDriver suppliedDriver l =
     (if suppliedDriver \<noteq> [] then (Inr suppliedDriver, l)
      else if defaultDriver \<noteq> ''aufs''
      then (Inr defaultDriver, deferredDebug defaultDriver l)
      else (case getFilesystemType p ''/var/lib'' l of
              (Inl err, l') \<Rightarrow> (Inl err, deferredDebug [] l')
            | (Inr remoteFilesystemType, l') \<Rightarrow>
                (if remoteFilesystemType = ''btrfs''
                 then (Inr ''btrfs'', deferredDebug ''btrfs'' l')
                 else (Inr ''aufs'', deferredDebug ''aufs'' l'))))"

section \<open>pkg/util/ocp: download of the client binary\<close>

subsection \<open>Library functions used by the package\<close>

definition HasSuffix :: "string \<Rightarrow> string \<Rightarrow> bool" where
  "HasSuffix s suffix =
     (length suffix \<le> length s \<and> drop (length s - length suffix) s = suffix)"

definition TrimPrefix :: "string \<Rightarrow> string \<Rightarrow> string" where
  "TrimPrefix s prefix = (if take (length prefix) s = prefix then drop (length prefix) s else s)"

fun joinWith :: "string \<Rightarrow> string list \<Rightarrow> string" where
  "joinWith sep [] = []"
| "joinWith sep [x] = x"
| "joinWith sep (x # y # ys) = x @ sep @ joinWith sep (y # ys)"

text \<open>
  \<open>filepath.Clean\<close> and \<open>filepath.Join\<close> on a host whose separator is \<open>/\<close>: empty and
  \<open>.\<close> elements go, \<open>..\<close> removes the element before it (and is dropped at the root),
  the empty result is \<open>.\<close>. \<open>Join\<close> skips leading empty elements and returns the empty
  string when nothing is left.
\<close>

fun cleanParts :: "bool \<Rightarrow> string list \<Rightarrow> string list \<Rightarrow> string list" where
  "cleanParts rooted [] kept = rev kept"
| "cleanParts rooted (p # ps) kept =
     (if p = [] \<or> p = ''.'' then cleanParts rooted ps kept
      else if p = ''..'' then
        (case kept of
           [] \<Rightarrow> if rooted then cleanParts rooted ps [] else cleanParts rooted ps [''..'']
         | k # ks \<Rightarrow> if k = ''..'' then cleanParts rooted ps (''..'' # kept)
                    else cleanParts rooted ps ks)
      else cleanParts rooted ps (p # kept))"

definition Clean :: "string \<Rightarrow> string" where
  "Clean path =
     (if path = [] then ''.''
      else let rooted = (hd path = CHR ''/'');
               body = joinWith ''/'' (cleanParts rooted (Split path CHR ''/'') [])
           in if rooted then ''/'' @ body
              else if body = [] then ''.'' else body)"

definition Join :: "string list \<Rightarrow> string" where
  "Join elem =
     (case dropWhile (\<lambda>e. e = []) elem of
        [] \<Rightarrow> []
      | e # es \<Rightarrow> Clean (joinWith ''/'' (e # es)))"

text \<open>\<open>%d\<close> of a status code.\<close>

fun Itoa :: "nat \<Rightarrow> string" where
  "Itoa n = (if n < 10 then [char_of (48 + n)] else Itoa (n div 10) @ [char_of (48 + n mod 10)])"

text \<open>
  A compiled regular expression, for the fragment the package uses: \<open>Dot\<close> is \<open>.\<close> (any
  character but a newline), \<open>AnyChar\<close> any character at all. \<open>matches\<close> matches the whole
  string, by derivatives; \<open>MatchString\<close> looks for a match anywhere in the string, and
  fails when the pattern did not compile.
\<close>

datatype rx = Void | Eps | Dot | AnyChar | Chr char | Alt rx rx | Seq rx rx | Star rx

fun nullable :: "rx \<Rightarrow> bool" where
  "nullable Void = False"
| "nullable Eps = True"
| "nullable Dot = False"
| "nullable AnyChar = False"
| "nullable (Chr c) = False"
| "nullable (Alt r s) = (nullable r \<or> nullable s)"
| "nullable (Seq r s) = (nullable r \<and> nullable s)"
| "nullable (Star r) = True"

fun deriv :: "char \<Rightarrow> rx \<Rightarrow> rx" where
  "deriv c Void = Void"
| "deriv c Eps = Void"
| "deriv c Dot = (if c = CHR 0x0A then Void else Eps)"
| "deriv c AnyChar = Eps"
| "deriv c (Chr d) = (if c = d then Eps else Void)"
| "deriv c (Alt r s) = Alt (deriv c r) (deriv c s)"
| "deriv c (Seq r s) =
     (if nullable r then Alt (Seq (deriv c r) s) (deriv c s) else Seq (deriv c r) s)"
| "deriv c (Star r) = Seq (deriv c r) (Star r)"

fun matches :: "rx \<Rightarrow> string \<Rightarrow> bool" where
  "matches r [] = nullable r"
| "matches r (c # cs) = matches (deriv c r) cs"

definition MatchString :: "error + rx \<Rightarrow> string \<Rightarrow> error + bool" where
  "MatchString pattern s =
     (case pattern of
        Inl err \<Rightarrow> Inl err
      | Inr r \<Rightarrow> Inr (matches (Seq (Star AnyChar) (Seq r (Star AnyChar))) s))"

text \<open>The pattern \<open>.*.tar.*\<close> of the caller, compiled.\<close>

definition tarPattern :: "error + rx" where
  "tarPattern =
     Inr (Seq (Star Dot) (Seq Dot (Seq (Chr CHR ''t'') (Seq (Chr CHR ''a'')
       (Seq (Chr CHR ''r'') (Star Dot))))))"

subsection \<open>The file system and the network\<close>

text \<open>
  Every call that leaves the process is an operation. A run is observed by the list of
  operations it performed, in order; the environment decides which operation fails and
  with what error, the name of the temporary directory, the status of a response, and
  the entries of a directory (as \<open>ioutil.ReadDir\<close> lists them).
\<close>

datatype operation =
    TempDir string string
  | NewRequest string
  | HttpDo string "(string \<times> string) option"
  | Create string
  | CopyBody string
  | Ungzip string string
  | Untar string string
  | Unzip string string
  | ReadDir string
  | MkdirAll string nat
  | Open string
  | CopyFile string string
  | Sync string
  | Chmod string nat
  | RemoveAll string

record Environment =
  fails :: "operation \<Rightarrow> error option"
  IsExist :: "error \<Rightarrow> bool"
  tempName :: string
  StatusCode :: "string \<Rightarrow> nat"
  dirEntries :: "string \<Rightarrow> string list"

type_synonym trace = "operation list"

definition perform :: "Environment \<Rightarrow> operation \<Rightarrow> trace \<Rightarrow> error option \<times> trace" where
  "perform env op tr = (fails env op, tr @ [op])"

subsection \<open>Constants\<close>

definition OMURL :: string where
  "OMURL = ''https://mirror.openshift.com/pub/openshift-v3/clients/''"

definition TAR :: string where
  "TAR = ''tar.gz''"

definition ZIP :: string where
  "ZIP = ''zip''"

text \<open>
  Modelled from the spec: \<open>minishiftos.OS\<close> is a string type with the three constants
  \<open>LINUX\<close>, \<open>DARWIN\<close> and \<open>WINDOWS\<close>.
\<close>

type_synonym OS = string

definition LINUX :: OS where
  "LINUX = ''linux''"

definition DARWIN :: OS where
  "DARWIN = ''darwin''"

definition WINDOWS :: OS where
  "WINDOWS = ''windows''"

subsection \<open>Functions\<close>

definition download ::
  "Environment \<Rightarrow> string \<Rightarrow> string \<Rightarrow> string \<Rightarrow> string \<Rightarrow> trace \<Rightarrow> (error + bool) \<times> trace" where
  "download env url filename username password tr =
     (case perform env (NewRequest url) tr of
        (Some err, tr1) \<Rightarrow> (Inl (''Error in request: '' @ sq @ err @ sq), tr1)
      | (None, tr1) \<Rightarrow>
     (case perform env
             (HttpDo url (if length username > 0 then Some (username, password) else None)) tr1 of
        (Some err, tr2) \<Rightarrow>
          (Inl (''Unable to get resource '' @ sq @ url @ sq @ '': '' @ err), tr2)
      | (None, tr2) \<Rightarrow>
     (if StatusCode env url \<noteq> 200
      then (Inl (''Wrong credentials or filename '' @ sq @ url @ sq @ '': '' @
                 Itoa (StatusCode env url)), tr2)
      else
     (case perform env (Create filename) tr2 of
        (Some err, tr3) \<Rightarrow>
          (Inl (''Not able to create file as '' @ sq @ url @ sq @ '': '' @ err), tr3)
      | (None, tr3) \<Rightarrow>
     (case perform env (CopyBody filename) tr3 of
        (Some err, tr4) \<Rightarrow>
          (Inl (''Not able to copy file to '' @ sq @ filename @ sq @ '': '' @ err), tr4)
      | (None, tr4) \<Rightarrow> (Inr True, tr4))))))"

text \<open>The loop of \<open>listDirExcluding\<close> over the entries, with the result so far.\<close>

fun excludeLoop :: "error + rx \<Rightarrow> string list \<Rightarrow> string list \<Rightarrow> error + string list" where
  "excludeLoop excludeRegexp [] result = Inr result"
| "excludeLoop excludeRegexp (f # files) result =
     (case MatchString excludeRegexp f of
        Inl err \<Rightarrow> Inl err
      | Inr matched \<Rightarrow>
          excludeLoop excludeRegexp files (if \<not> matched then result @ [f] else result))"

definition listDirExcluding ::
  "Environment \<Rightarrow> string \<Rightarrow> error + rx \<Rightarrow> trace \<Rightarrow> (error + string list) \<times> trace" where
  "listDirExcluding env dir excludeRegexp tr =
     (case perform env (ReadDir dir) tr of
        (Some err, tr1) \<Rightarrow> (Inl err, tr1)
      | (None, tr1) \<Rightarrow> (excludeLoop excludeRegexp (dirEntries env dir) [], tr1))"

definition copy :: "Environment \<Rightarrow> string \<Rightarrow> string \<Rightarrow> trace \<Rightarrow> error option \<times> trace" where
  "copy env src dest tr =
     (case perform env (Open src) tr of
        (Some err, tr1) \<Rightarrow> (Some (''Cannot open src file: '' @ src), tr1)
      | (None, tr1) \<Rightarrow>
     (case perform env (Create dest) tr1 of
        (Some err, tr2) \<Rightarrow> (Some (''Cannot create dst file: '' @ dest), tr2)
      | (None, tr2) \<Rightarrow>
     (case perform env (CopyFile src dest) tr2 of
        (Some err, tr3) \<Rightarrow> (Some (''Cannot copy: '' @ err), tr3)
      | (None, tr3) \<Rightarrow>
     (case perform env (Sync dest) tr3 of
        (Some err, tr4) \<Rightarrow> (Some (''Cannot copy: '' @ err), tr4)
      | (None, tr4) \<Rightarrow> (None, tr4)))))"

text \<open>The values \<open>DownloadOcpVersionFromMirror\<close> computes from its arguments.\<close>

definition platformOf :: "OS \<Rightarrow> string" where
  "platformOf osType = (if osType = DARWIN then ''macosx'' else osType)"

definition extensionOf :: "OS \<Rightarrow> string" where
  "extensionOf osType = (if osType = WINDOWS then ZIP else TAR)"

definition mirrorURL :: "string \<Rightarrow> OS \<Rightarrow> string" where
  "mirrorURL version osType =
     OMURL @ (TrimPrefix version ''v'' @ ''/'' @ platformOf osType @ ''/'' @ ''oc'' @ ''.'' @
              extensionOf osType)"

definition targetFileOf :: "OS \<Rightarrow> string" where
  "targetFileOf osType = ''oc'' @ ''.'' @ extensionOf osType"

definition finalBinaryName :: "OS \<Rightarrow> string" where
  "finalBinaryName osType = (if osType = WINDOWS then ''oc'' @ ''.exe'' else ''oc'')"

text \<open>The permission bits \<open>0755\<close> and \<open>0777\<close>, written in octal in the source.\<close>

definition perm0755 :: nat where
  "perm0755 = 7 * 64 + 5 * 8 + 5"

definition perm0777 :: nat where
  "perm0777 = 7 * 64 + 7 * 8 + 7"

text \<open>\<open>%s\<close> of a slice of strings.\<close>

definition showStrings :: "string list \<Rightarrow> string" where
  "showStrings xs = ''['' @ joinWith '' '' xs @ '']''"

text \<open>
  The \<open>switch\<close> on the suffix of the downloaded file: the error it returns, or the
  directory the binary is taken from.
\<close>

definition extractAsset ::
  "Environment \<Rightarrow> string \<Rightarrow> string \<Rightarrow> trace \<Rightarrow> (error + string) \<times> trace" where
  "extractAsset env assetTmpFile tmpDir tr =
     (if HasSuffix assetTmpFile TAR then
        (let tarFile = take (length assetTmpFile - 3) assetTmpFile in
         case perform env (Ungzip assetTmpFile tarFile) tr of
           (Some err, tr1) \<Rightarrow> (Inl ''Cannot ungzip'', tr1)
         | (None, tr1) \<Rightarrow>
        (case perform env (Untar tarFile tmpDir) tr1 of
           (Some err, tr2) \<Rightarrow> (Inl ''Cannot untar'', tr2)
         | (None, tr2) \<Rightarrow>
        (case listDirExcluding env tmpDir tarPattern tr2 of
           (Inl err, tr3) \<Rightarrow> (Inl ''Cannot list content of'', tr3)
         | (Inr content, tr3) \<Rightarrow>
             if length content > 1
             then (Inl (''Unexpected number of files in tmp directory: '' @
                        showStrings content), tr3)
             else (Inr tmpDir, tr3))))
      else if HasSuffix assetTmpFile ZIP then
        (case perform env (Unzip assetTmpFile tmpDir) tr of
           (Some err, tr1) \<Rightarrow> (Inl ''Cannot unzip'', tr1)
         | (None, tr1) \<Rightarrow> (Inr tmpDir, tr1))
      else (Inr [], tr))"

text \<open>What follows \<open>defer os.RemoveAll(tmpDir)\<close>, up to the return.\<close>

definition fetchInto ::
  "Environment \<Rightarrow> string \<Rightarrow> OS \<Rightarrow> string \<Rightarrow> string \<Rightarrow> trace \<Rightarrow> error option \<times> trace" where
  "fetchInto env version osType outputPath tmpDir tr =
     (let url = mirrorURL version osType;
          assetTmpFile = Join [tmpDir, targetFileOf osType]
      in case download env url assetTmpFile [] [] tr of
           (Inl err, tr1) \<Rightarrow> (Some err, tr1)
         | (Inr _, tr1) \<Rightarrow>
        (case extractAsset env assetTmpFile tmpDir tr1 of
           (Inl err, tr2) \<Rightarrow> (Some err, tr2)
         | (Inr dir, tr2) \<Rightarrow>
        (let binaryName = finalBinaryName osType;
             binaryPath = Join [dir, binaryName]
         in case perform env (MkdirAll outputPath perm0755) tr2 of
              (mkdirErr, tr3) \<Rightarrow>
           (if (case mkdirErr of None \<Rightarrow> False | Some err \<Rightarrow> \<not> IsExist env err)
            then (Some ''Cannot create the target directory.'', tr3)
            else
           (let finalBinaryPath = Join [outputPath, binaryName]
            in case copy env binaryPath finalBinaryPath tr3 of
                 (Some err, tr4) \<Rightarrow> (Some err, tr4)
               | (None, tr4) \<Rightarrow>
              (case perform env (Chmod finalBinaryPath perm0777) tr4 of
                 (Some err, tr5) \<Rightarrow> (Some (''Cannot make executable: '' @ err), tr5)
               | (None, tr5) \<Rightarrow> (None, tr5)))))))"

definition DownloadOcpVersionFromMirror ::
  "Environment \<Rightarrow> string \<Rightarrow> OS \<Rightarrow> string \<Rightarrow> trace \<Rightarrow> error option \<times> trace" where
  "DownloadOcpVersionFromMirror env version osType outputPath tr =
     (case perform env (TempDir [] ''minishift-asset-download-'') tr of
        (Some err, tr1) \<Rightarrow> (Some ''Cannot create temporary download directory.'', tr1)
      | (None, tr1) \<Rightarrow>
          (let tmpDir = tempName env
           in case fetchInto env version osType outputPath tmpDir tr1 of
                (result, tr2) \<Rightarrow> (result, snd (perform env (RemoveAll tmpDir) tr2))))"

section \<open>Vocabulary of the statements\<close>

text \<open>
  The text each template renders to, the command that carries it to the guest, and the
  lines of the summary: what the theorems below compare the functions with.
\<close>

definition renderedScript :: "NetworkSettings \<Rightarrow> string" where
  "renderedScript ns =
     (if Disabled ns then ''DEVICE='' @ Device ns @ nl @ ''DISABLED=true'' @ nl
      else if UseDHCP ns then ''DEVICE='' @ Device ns @ nl @ ''USEDHCP=true'' @ nl
      else ''DEVICE='' @ Device ns @ nl @ ''IPADDR='' @ IPAddress ns @ nl @
           ''NETMASK='' @ Netmask ns @ nl @ ''GATEWAY='' @ Gateway ns @ nl @
           ''DNS1='' @ DNS1 ns @ nl @ ''DNS2='' @ DNS2 ns @ nl)"

definition applyCommand :: "NetworkSettings \<Rightarrow> string" where
  "applyCommand ns = writeCommand (EncodeToString (renderedScript ns)) (Device ns)"

definition succeeded :: "error + string \<Rightarrow> bool" where
  "succeeded r = (case r of Inl _ \<Rightarrow> False | Inr _ \<Rightarrow> True)"

definition applied :: "Driver \<Rightarrow> NetworkSettings \<Rightarrow> World \<Rightarrow> World" where
  "applied d ns w =
     w\<lparr>writeCalls := writeCalls w @ [ns],
       sshLog := sshLog w @ [applyCommand ns],
       stdout := stdout w @ [if succeeded (drvSSH d (applyCommand ns)) then ''OK'' else ''FAIL'']\<rparr>"

definition summaryLines :: "NetworkSettings \<Rightarrow> string list" where
  "summaryLines ns =
     [configureIPAddressMessage,
      ''   Device:      '' @ Device ns,
      ''   IP Address:  '' @ IPAddress ns @ ''/'' @ Netmask ns] @
     (if Gateway ns \<noteq> [] then [''   Gateway:     '' @ Gateway ns] else []) @
     (if DNS1 ns \<noteq> [] then [''   Nameservers: '' @ DNS1 ns @ '' '' @ DNS2 ns] else [])"

text \<open>The entries of the temporary directory that the pattern does not exclude.\<close>

definition nonArchive :: "Environment \<Rightarrow> string list" where
  "nonArchive env =
     filter (\<lambda>f. MatchString tarPattern f = Inr False) (dirEntries env (tempName env))"

subsection \<open>Concrete guests and hosts\<close>

text \<open>
  A guest at 192.168.99.100 on device eth1 that answers the four queries of the discovery,
  and a fresh instance on a given hypervisor. \<open>otherCommands\<close> is the answer to every
  other command, the writes among them.
\<close>

definition guest :: "(error + string) \<Rightarrow> Driver" where
  "guest otherCommands =
     \<lparr>drvGetIP = Inr ''192.168.99.100'',
      drvSSH = (\<lambda>cmd.
        if cmd = deviceCommand ''192.168.99.100'' then Inr ''eth1''
        else if cmd = addressCommand ''eth1'' then Inr (''192.168.99.100/24'' @ nl)
        else if cmd = resolveCommand then Inr ''10.0.2.3 192.168.99.1 ''
        else if cmd = gatewayCommand then Inr ''192.168.99.1''
        else otherCommands)\<rparr>"

definition guestSettings :: NetworkSettings where
  "guestSettings = \<lparr>Device = ''eth1'', IPAddress = ''192.168.99.100'', Netmask = ''24'',
     Gateway = ''192.168.99.1'', DNS1 = ''10.0.2.3'', DNS2 = ''192.168.99.1'',
     UseDHCP = False, Disabled = False\<rparr>"

definition stoppedGuest :: Driver where
  "stoppedGuest = \<lparr>drvGetIP = Inl ''Host is not running'', drvSSH = (\<lambda>cmd. Inl ''Host is not running'')\<rparr>"

definition freshConfig :: "HypervisorKind \<Rightarrow> InstanceConfig" where
  "freshConfig kind = \<lparr>cfgIPAddress = [], IsRHELBased = True, SupportsNetworkAssignment = True,
     VMDriver = kind\<rparr>"

definition freshWorld :: "HypervisorKind \<Rightarrow> World" where
  "freshWorld kind = \<lparr>config = freshConfig kind, stored = freshConfig kind, stdout = [],
     sshLog = [], getIPCalls = 0, writeCalls = []\<rparr>"

definition unsupportedWorld :: World where
  "unsupportedWorld =
     (freshWorld KVM)\<lparr>config := (freshConfig KVM)\<lparr>SupportsNetworkAssignment := False\<rparr>\<rparr>"

definition configuredWorld :: World where
  "configuredWorld = (freshWorld KVM)\<lparr>config := (freshConfig KVM)\<lparr>cfgIPAddress := ''10.1.2.3''\<rparr>\<rparr>"

text \<open>
  A host on which the temporary directory is \<open>/tmp/minishift-asset-download-042\<close> and
  lists the given entries, every response has status 200, and the operations that fail
  are given; and a guest whose \<open>/var/lib\<close> is on a given file system.
\<close>

definition host :: "(operation \<Rightarrow> error option) \<Rightarrow> string list \<Rightarrow> Environment" where
  "host failing entries =
     \<lparr>fails = failing, IsExist = (\<lambda>err. err = ''file exists''),
      tempName = ''/tmp/minishift-asset-download-042'', StatusCode = (\<lambda>url. 200),
      dirEntries = (\<lambda>dir. if dir = ''/tmp/minishift-asset-download-042'' then entries else [])\<rparr>"

definition nothingFails :: "operation \<Rightarrow> error option" where
  "nothingFails op = None"

definition binaryMissing :: "operation \<Rightarrow> error option" where
  "binaryMissing op =
     (if op = Open ''/tmp/minishift-asset-download-042/oc'' then Some ''no such file or directory''
      else None)"

definition hostWithFilesystem :: "string \<Rightarrow> Provisioner" where
  "hostWithFilesystem fstype =
     \<lparr>SSHCommand = (\<lambda>cmd. if cmd = ''stat -f -c %T /var/lib'' then Inr (fstype @ nl)
                           else Inl ''command not found'')\<rparr>"

definition emptyLog :: ProvisionLog where
  "emptyLog = \<lparr>sshCommands = [], debugLog = []\<rparr>"

section \<open>Properties of the network package\<close>

subsection \<open>Sequencing\<close>

lemma andThen_ret: "andThen (ret a) f w = f a w"
  by (simp add: andThen_def ret_def)

lemma andThen_Println: "andThen (Println l) f w = f () (w\<lparr>stdout := stdout w @ [l]\<rparr>)"
  by (simp add: andThen_def Println_def)

lemma andThen_Exit: "andThen (ExitWithMessage c m) f w = (Exit c m, w)"
  by (simp add: andThen_def ExitWithMessage_def)

lemma andThen_SSH:
  "andThen (RunSSHCommandFromDriver d c) f w = f (drvSSH d c) (w\<lparr>sshLog := sshLog w @ [c]\<rparr>)"
  by (simp add: andThen_def RunSSHCommandFromDriver_def)

lemma andThen_driverGetIP:
  "andThen (driverGetIP d) f w = f (drvGetIP d) (w\<lparr>getIPCalls := Suc (getIPCalls w)\<rparr>)"
  by (simp add: andThen_def driverGetIP_def)

lemma andThen_index:
  "andThen (index xs i) f w = (if i < length xs then f (xs ! i) w else (Panic, w))"
  by (simp add: andThen_def index_def)

lemma andThen_orExit:
  "andThen (orExit what r) f w =
     (case r of Inl err \<Rightarrow> (Exit 1 (what @ err), w) | Inr out \<Rightarrow> f out w)"
  by (simp add: orExit_def andThen_ret andThen_Exit split: sum.splits)

lemma andThen_if:
  "andThen (if b then m else n) f w = (if b then andThen m f w else andThen n f w)"
  by simp

lemmas andThen_simps =
  andThen_ret andThen_Println andThen_Exit andThen_SSH andThen_driverGetIP

lemma gate_open:
  "IsRHELBased (config w) \<Longrightarrow> SupportsNetworkAssignment (config w) \<Longrightarrow>
   andThen checkSupportForAddressAssignment f w = f True w"
  by (simp add: checkSupportForAddressAssignment_def andThen_def ret_def)

lemma gate_closed:
  "\<not> (IsRHELBased (config w) \<and> SupportsNetworkAssignment (config w)) \<Longrightarrow>
   andThen checkSupportForAddressAssignment f w =
     (Exit 1 configureNetworkNotSupportedMessage, w)"
  by (auto simp add: checkSupportForAddressAssignment_def andThen_def ExitWithMessage_def)

subsection \<open>Rendering\<close>

lemma fill_rendered: "fillNetworkSettingsScript ns w = (Done (renderedScript ns), w)"
  by (simp add: fillNetworkSettingsScript_def renderedScript_def ret_def showBool_def
      configureNetworkScriptStaticAddressTemplate_def
      configureNetworkScriptDynamicAddressTemplate_def
      configureNetworkScriptDisabledAddressTemplate_def fieldValue_def)

text \<open>
  C5. Whatever the settings, the script is rendered (the run does not exit) and the
  template is chosen by the priority disabled, then dhcp, then static: with \<open>Disabled\<close>
  set the output is the device line and \<open>DISABLED=true\<close>, whatever the other fields are;
  otherwise with \<open>UseDHCP\<close> set it is the device line and \<open>USEDHCP=true\<close>; otherwise it is
  exactly the six lines \<open>DEVICE=\<close>, \<open>IPADDR=\<close>, \<open>NETMASK=\<close>, \<open>GATEWAY=\<close>, \<open>DNS1=\<close>, \<open>DNS2=\<close>
  with the values of the fields.
\<close>

theorem fillNetworkSettingsScript_priority:
  "fillNetworkSettingsScript ns w =
     (Done (if Disabled ns then ''DEVICE='' @ Device ns @ nl @ ''DISABLED=true'' @ nl
            else if UseDHCP ns then ''DEVICE='' @ Device ns @ nl @ ''USEDHCP=true'' @ nl
            else ''DEVICE='' @ Device ns @ nl @ ''IPADDR='' @ IPAddress ns @ nl @
                 ''NETMASK='' @ Netmask ns @ nl @ ''GATEWAY='' @ Gateway ns @ nl @
                 ''DNS1='' @ DNS1 ns @ nl @ ''DNS2='' @ DNS2 ns @ nl), w)"
  by (simp add: fillNetworkSettingsScript_def ret_def showBool_def
      configureNetworkScriptStaticAddressTemplate_def
      configureNetworkScriptDynamicAddressTemplate_def
      configureNetworkScriptDisabledAddressTemplate_def fieldValue_def)

subsection \<open>The capability gate\<close>

text \<open>
  C7. When \<open>IsRHELBased\<close> and \<open>SupportsNetworkAssignment\<close> are not both set, the static
  and the dynamic configuration end the process with exit code 1 and the not-supported
  message, in the world they started from: no command was sent, no
  \<open>WriteNetworkSettingsToHost\<close> call was made, and the configuration in memory and the one
  stored are unchanged.
\<close>

theorem gate_false_aborts_before_any_write:
  "\<not> (IsRHELBased (config w) \<and> SupportsNetworkAssignment (config w)) \<Longrightarrow>
   ConfigureStaticAssignment driver w = (Exit 1 configureNetworkNotSupportedMessage, w) \<and>
   ConfigureDynamicAssignment driver w = (Exit 1 configureNetworkNotSupportedMessage, w)"
  by (simp add: ConfigureStaticAssignment_def ConfigureDynamicAssignment_def gate_closed)

theorem gate_false_aborts_before_any_write_witness:
  "\<not> (IsRHELBased (config unsupportedWorld) \<and> SupportsNetworkAssignment (config unsupportedWorld)) \<and>
   ConfigureStaticAssignment (guest (Inr [])) unsupportedWorld =
     (Exit 1 configureNetworkNotSupportedMessage, unsupportedWorld) \<and>
   ConfigureDynamicAssignment (guest (Inr [])) unsupportedWorld =
     (Exit 1 configureNetworkNotSupportedMessage, unsupportedWorld) \<and>
   sshLog unsupportedWorld = [] \<and> writeCalls unsupportedWorld = []"
  using gate_false_aborts_before_any_write [of unsupportedWorld "guest (Inr [])"]
  by (simp add: unsupportedWorld_def freshWorld_def freshConfig_def)

subsection \<open>The address of the instance\<close>

text \<open>
  C10. \<open>GetIP\<close> returns the address stored in the instance configuration whenever it is
  not empty, and leaves the world as it was: the driver is not asked. When the stored
  address is empty it asks the driver once and returns the driver's answer, its address
  or its error.
\<close>

theorem GetIP_prefers_configured_address:
  "(cfgIPAddress (config w) \<noteq> [] \<longrightarrow>
      GetIP driver w = (Done (Inr (cfgIPAddress (config w))), w)) \<and>
   (cfgIPAddress (config w) = [] \<longrightarrow>
      GetIP driver w = (Done (drvGetIP driver), w\<lparr>getIPCalls := Suc (getIPCalls w)\<rparr>))"
  by (simp add: GetIP_def andThen_driverGetIP ret_def split: sum.splits)

theorem GetIP_prefers_configured_address_witness:
  "GetIP stoppedGuest configuredWorld = (Done (Inr ''10.1.2.3''), configuredWorld) \<and>
   getIPCalls configuredWorld = 0 \<and>
   GetIP (guest (Inr [])) (freshWorld KVM) =
     (Done (Inr ''192.168.99.100''), (freshWorld KVM)\<lparr>getIPCalls := 1\<rparr>) \<and>
   GetIP stoppedGuest (freshWorld KVM) =
     (Done (Inl ''Host is not running''), (freshWorld KVM)\<lparr>getIPCalls := 1\<rparr>)"
  using GetIP_prefers_configured_address [of configuredWorld stoppedGuest]
    GetIP_prefers_configured_address [of "freshWorld KVM" "guest (Inr [])"]
    GetIP_prefers_configured_address [of "freshWorld KVM" stoppedGuest]
  by (simp add: configuredWorld_def freshWorld_def freshConfig_def guest_def stoppedGuest_def)

subsection \<open>Applying settings and the static mode\<close>

lemma Write_applied:
  "WriteNetworkSettingsToHost d ns w = (Done (succeeded (drvSSH d (applyCommand ns))), applied d ns w)"
  by (simp add: WriteNetworkSettingsToHost_def andThen_def[of "fillNetworkSettingsScript ns"]
       fill_rendered andThen_simps applied_def succeeded_def
       applyCommand_def ret_def Let_def split: sum.splits)

lemma andThen_Write:
  "andThen (WriteNetworkSettingsToHost d ns) f w =
     f (succeeded (drvSSH d (applyCommand ns))) (applied d ns w)"
  by (simp add: andThen_def[of "WriteNetworkSettingsToHost d ns"] Write_applied)

lemma andThen_twoInterfaces: "andThen (twoInterfaces d ns) f w =
   (if VMDriver (config w) = VIRTUALBOX \<or> VMDriver (config w) = KVM
    then f () (applied d eth0DHCP (applied d ns (w\<lparr>stdout := stdout w @ [''vbox or kvm'']\<rparr>)))
    else f () w)"
  by (simp add: andThen_def[of "twoInterfaces d ns"] twoInterfaces_def IsVirtualBox_def IsKVM_def
      andThen_simps andThen_Write ret_def)

lemma andThen_singleInterface: "andThen (singleInterface d ns) f w =
   (if VMDriver (config w) = HYPERV \<or> VMDriver (config w) = XHYVE
    then f () (applied d eth1Disabled (applied d ns (w\<lparr>stdout := stdout w @ [''hyperv or xhyve'']\<rparr>)))
    else f () w)"
  by (simp add: andThen_def[of "singleInterface d ns"] singleInterface_def IsHyperV_def IsXhyve_def
      andThen_simps andThen_Write ret_def)

lemma andThen_print:
  "andThen (printNetworkSettings ns) f w = f () (w\<lparr>stdout := stdout w @ summaryLines ns\<rparr>)"
  by (simp add: printNetworkSettings_def andThen_def[of "andThen _ _"] andThen_simps Println_def
      ret_def summaryLines_def)

lemma andThen_setIP:
  "andThen (setIPAddress ip) f w = f () (w\<lparr>config := (config w)\<lparr>cfgIPAddress := ip\<rparr>\<rparr>)"
  by (simp add: andThen_def setIPAddress_def)

lemma andThen_cfgWrite: "andThen InstanceConfigWrite f w = f () (w\<lparr>stored := config w\<rparr>)"
  by (simp add: andThen_def InstanceConfigWrite_def)

lemma discovery_frame:
  "GetNetworkSettingsForHost d w = (r, w') \<Longrightarrow>
     config w' = config w \<and> stored w' = stored w \<and> stdout w' = stdout w \<and>
     writeCalls w' = writeCalls w"
  by (auto simp add: GetNetworkSettingsForHost_def andThen_simps andThen_index andThen_orExit
      andThen_if Let_def ret_def split: sum.splits if_splits)

lemma static_after_discovery:
  assumes "IsRHELBased (config w)" "SupportsNetworkAssignment (config w)"
    and "GetNetworkSettingsForHost d (snd (Println ''Static assignment of IP address'' w)) = (Done ns, w1)"
  shows "ConfigureStaticAssignment d w =
    andThen (twoInterfaces d ns) (\<lambda>_.
     andThen (singleInterface d ns) (\<lambda>_.
     andThen (printNetworkSettings ns) (\<lambda>_.
     andThen (setIPAddress (IPAddress ns)) (\<lambda>_.
     andThen InstanceConfigWrite (\<lambda>_.
     Println configureRestartNeededMessage))))) w1"
proof -
  have d: "\<And>f. andThen (GetNetworkSettingsForHost d) f
      (w\<lparr>stdout := stdout w @ [''Static assignment of IP address'']\<rparr>) = f ns w1"
    using assms(3) by (simp add: andThen_def Println_def)
  show ?thesis
    using assms(1,2) by (simp add: ConfigureStaticAssignment_def gate_open andThen_simps d)
qed

lemma guest_discovery:
  "GetNetworkSettingsForHost (guest other) w =
     (Done guestSettings, w\<lparr>getIPCalls := Suc (getIPCalls w),
        sshLog := sshLog w @ [deviceCommand ''192.168.99.100'', addressCommand ''eth1'',
                              resolveCommand, gatewayCommand]\<rparr>)"
  by (simp add: GetNetworkSettingsForHost_def andThen_simps andThen_index andThen_orExit
      andThen_if Let_def ret_def guest_def guestSettings_def zeroSettings_def TrimSpace_def isSpace_def nl_def
      deviceCommand_def addressCommand_def resolveCommand_def gatewayCommand_def sq_def tab_def)


lemma static_run:
  assumes "IsRHELBased (config w) \<and> SupportsNetworkAssignment (config w)"
    and "GetNetworkSettingsForHost d (snd (Println ''Static assignment of IP address'' w)) = (Done ns, w1)"
  shows "ConfigureStaticAssignment d w =
     (let w2 = (if VMDriver (config w) = VIRTUALBOX \<or> VMDriver (config w) = KVM
                then applied d eth0DHCP (applied d ns (w1\<lparr>stdout := stdout w1 @ [''vbox or kvm'']\<rparr>))
                else w1);
          w3 = (if VMDriver (config w) = HYPERV \<or> VMDriver (config w) = XHYVE
                then applied d eth1Disabled (applied d ns (w2\<lparr>stdout := stdout w2 @ [''hyperv or xhyve'']\<rparr>))
                else w2)
      in (Done (), w3\<lparr>stdout := stdout w3 @ summaryLines ns @ [configureRestartNeededMessage],
                      config := (config w)\<lparr>cfgIPAddress := IPAddress ns\<rparr>,
                      stored := (config w)\<lparr>cfgIPAddress := IPAddress ns\<rparr>\<rparr>))"
proof -
  have c: "config w1 = config w"
    using discovery_frame[OF assms(2)] by (simp add: Println_def)
  show ?thesis
    using assms(1) c
    by (simp add: static_after_discovery[OF _ _ assms(2)] andThen_twoInterfaces andThen_singleInterface
       andThen_print andThen_setIP andThen_cfgWrite Println_def applied_def Let_def)
qed

lemma fresh_gate: "IsRHELBased (config (freshWorld k)) \<and> SupportsNetworkAssignment (config (freshWorld k))"
  by (simp add: freshWorld_def freshConfig_def)

lemma fresh_kind: "VMDriver (config (freshWorld k)) = k"
  by (simp add: freshWorld_def freshConfig_def)

lemma guest_write_fails: "drvSSH (guest (Inl e)) (applyCommand ns) = Inl e"
  by (simp add: guest_def applyCommand_def writeCommand_def deviceCommand_def addressCommand_def
      resolveCommand_def gatewayCommand_def)

text \<open>
  C6. With the gate open and the discovery returning the settings \<open>ns\<close>, the static mode
  on KVM or VirtualBox completes and makes exactly two \<open>WriteNetworkSettingsToHost\<close> calls:
  the discovered settings, then \<open>UseDHCP = true\<close> for device \<open>eth0\<close>. On Hyper-V or xhyve
  it completes and makes exactly two calls: the discovered settings, then
  \<open>Disabled = true\<close> for device \<open>eth1\<close>.
\<close>

theorem static_companion_writes:
  assumes "IsRHELBased (config w) \<and> SupportsNetworkAssignment (config w)"
    and "GetNetworkSettingsForHost driver (snd (Println ''Static assignment of IP address'' w)) = (Done ns, w1)"
  shows "(VMDriver (config w) = KVM \<or> VMDriver (config w) = VIRTUALBOX \<longrightarrow>
            fst (ConfigureStaticAssignment driver w) = Done () \<and>
            writeCalls (snd (ConfigureStaticAssignment driver w)) =
              writeCalls w @ [ns, zeroSettings\<lparr>Device := ''eth0'', UseDHCP := True\<rparr>]) \<and>
         (VMDriver (config w) = HYPERV \<or> VMDriver (config w) = XHYVE \<longrightarrow>
            fst (ConfigureStaticAssignment driver w) = Done () \<and>
            writeCalls (snd (ConfigureStaticAssignment driver w)) =
              writeCalls w @ [ns, zeroSettings\<lparr>Device := ''eth1'', Disabled := True\<rparr>])"
proof -
  have wc: "writeCalls w1 = writeCalls w"
    using discovery_frame[OF assms(2)] by (simp add: Println_def)
  show ?thesis
    using wc by (auto simp add: static_run[OF assms] applied_def Let_def eth0DHCP_def eth1Disabled_def)
qed

theorem static_companion_writes_witness:
  "writeCalls (snd (ConfigureStaticAssignment (guest (Inr [])) (freshWorld KVM))) =
     [guestSettings, zeroSettings\<lparr>Device := ''eth0'', UseDHCP := True\<rparr>] \<and>
   writeCalls (snd (ConfigureStaticAssignment (guest (Inr [])) (freshWorld HYPERV))) =
     [guestSettings, zeroSettings\<lparr>Device := ''eth1'', Disabled := True\<rparr>]"
  using static_companion_writes [OF fresh_gate guest_discovery, of KVM "Inr []"]
    static_companion_writes [OF fresh_gate guest_discovery, of HYPERV "Inr []"]
  by (simp add: fresh_kind) (simp add: freshWorld_def)

text \<open>
  On a hypervisor that is none of the four, with the gate open and the discovery
  returning, the run completes without a single \<open>WriteNetworkSettingsToHost\<close> call: the
  discovered settings are not applied to the primary device.
\<close>

theorem static_other_hypervisor_one_write_counterexample:
  "IsRHELBased (config (freshWorld (OtherHypervisor ''vmwarefusion''))) \<and>
   SupportsNetworkAssignment (config (freshWorld (OtherHypervisor ''vmwarefusion''))) \<and>
   VMDriver (config (freshWorld (OtherHypervisor ''vmwarefusion''))) \<notin> {VIRTUALBOX, KVM, HYPERV, XHYVE} \<and>
   fst (GetNetworkSettingsForHost (guest (Inr [])) (freshWorld (OtherHypervisor ''vmwarefusion''))) = Done guestSettings \<and>
   fst (ConfigureStaticAssignment (guest (Inr [])) (freshWorld (OtherHypervisor ''vmwarefusion''))) = Done () \<and>
   length (writeCalls (snd (ConfigureStaticAssignment (guest (Inr [])) (freshWorld (OtherHypervisor ''vmwarefusion''))))) \<noteq> 1 \<and>
   guestSettings \<notin> set (writeCalls (snd (ConfigureStaticAssignment (guest (Inr [])) (freshWorld (OtherHypervisor ''vmwarefusion'')))))"
  by (simp add: static_run[OF fresh_gate guest_discovery] fresh_gate fresh_kind guest_discovery Let_def)
     (simp add: freshWorld_def Println_def)

text \<open>
  C1 (as the code has it). For every hypervisor kind other than VirtualBox, KVM, Hyper-V
  and xhyve, with the gate open and the discovery returning the settings \<open>ns\<close>, the static
  mode makes no \<open>WriteNetworkSettingsToHost\<close> call and sends no command after the
  discovery; it prints the summary and the restart notice, stores the discovered address
  in the instance configuration and flushes it.
\<close>

theorem static_other_hypervisor_writes_nothing:
  assumes "IsRHELBased (config w) \<and> SupportsNetworkAssignment (config w)"
    and "GetNetworkSettingsForHost driver (snd (Println ''Static assignment of IP address'' w)) = (Done ns, w1)"
    and "VMDriver (config w) \<notin> {VIRTUALBOX, KVM, HYPERV, XHYVE}"
  shows "fst (ConfigureStaticAssignment driver w) = Done () \<and>
         writeCalls (snd (ConfigureStaticAssignment driver w)) = writeCalls w \<and>
         sshLog (snd (ConfigureStaticAssignment driver w)) = sshLog w1 \<and>
         cfgIPAddress (config (snd (ConfigureStaticAssignment driver w))) = IPAddress ns \<and>
         stored (snd (ConfigureStaticAssignment driver w)) = config (snd (ConfigureStaticAssignment driver w)) \<and>
         stdout (snd (ConfigureStaticAssignment driver w)) =
           stdout w @ [''Static assignment of IP address''] @ summaryLines ns @ [configureRestartNeededMessage]"
proof -
  have f: "writeCalls w1 = writeCalls w" "stdout w1 = stdout w @ [''Static assignment of IP address'']"
    using discovery_frame[OF assms(2)] by (simp_all add: Println_def)
  show ?thesis
    using f assms(3) by (simp add: static_run[OF assms(1,2)] Let_def)
qed

theorem static_other_hypervisor_writes_nothing_witness:
  "fst (ConfigureStaticAssignment (guest (Inr [])) (freshWorld (OtherHypervisor ''vmwarefusion''))) = Done () \<and>
   writeCalls (snd (ConfigureStaticAssignment (guest (Inr [])) (freshWorld (OtherHypervisor ''vmwarefusion'')))) = [] \<and>
   cfgIPAddress (config (snd (ConfigureStaticAssignment (guest (Inr [])) (freshWorld (OtherHypervisor ''vmwarefusion''))))) = ''192.168.99.100''"
  using static_other_hypervisor_writes_nothing [OF fresh_gate guest_discovery, of "OtherHypervisor ''vmwarefusion''" "Inr []"]
  by (simp add: fresh_kind) (simp add: freshWorld_def guestSettings_def)

text \<open>
  C9. \<open>WriteNetworkSettingsToHost\<close> never ends the process: it sends its command and
  returns false when the command failed and true otherwise. Its callers drop that value:
  with the gate open the dynamic mode sends the commands for \<open>eth0\<close> and \<open>eth1\<close>, and the
  static mode (once the discovery has returned) sends the command for the discovered
  settings and the one for the companion interface, whatever the channel answers to
  either of them.
\<close>

theorem failed_write_does_not_stop_sibling:
  "fst (WriteNetworkSettingsToHost driver ns w) =
     Done (case drvSSH driver (applyCommand ns) of Inl err \<Rightarrow> False | Inr out \<Rightarrow> True) \<and>
   sshLog (snd (WriteNetworkSettingsToHost driver ns w)) = sshLog w @ [applyCommand ns] \<and>
   (IsRHELBased (config w) \<and> SupportsNetworkAssignment (config w) \<longrightarrow>
      fst (ConfigureDynamicAssignment driver w) = Done () \<and>
      sshLog (snd (ConfigureDynamicAssignment driver w)) =
        sshLog w @ [applyCommand eth0DHCP, applyCommand eth1DHCP]) \<and>
   (IsRHELBased (config w) \<and> SupportsNetworkAssignment (config w) \<and>
    GetNetworkSettingsForHost driver (snd (Println ''Static assignment of IP address'' w)) = (Done ds, w1) \<longrightarrow>
      fst (ConfigureStaticAssignment driver w) = Done () \<and>
      (VMDriver (config w) = KVM \<or> VMDriver (config w) = VIRTUALBOX \<longrightarrow>
         sshLog (snd (ConfigureStaticAssignment driver w)) =
           sshLog w1 @ [applyCommand ds, applyCommand eth0DHCP]) \<and>
      (VMDriver (config w) = HYPERV \<or> VMDriver (config w) = XHYVE \<longrightarrow>
         sshLog (snd (ConfigureStaticAssignment driver w)) =
           sshLog w1 @ [applyCommand ds, applyCommand eth1Disabled]))"
proof -
  have a: "fst (WriteNetworkSettingsToHost driver ns w) =
     Done (case drvSSH driver (applyCommand ns) of Inl err \<Rightarrow> False | Inr out \<Rightarrow> True)"
    by (simp add: Write_applied succeeded_def)
  have b: "sshLog (snd (WriteNetworkSettingsToHost driver ns w)) = sshLog w @ [applyCommand ns]"
    by (simp add: Write_applied applied_def)
  have c: "IsRHELBased (config w) \<and> SupportsNetworkAssignment (config w) \<longrightarrow>
      fst (ConfigureDynamicAssignment driver w) = Done () \<and>
      sshLog (snd (ConfigureDynamicAssignment driver w)) =
        sshLog w @ [applyCommand eth0DHCP, applyCommand eth1DHCP]"
    by (simp add: ConfigureDynamicAssignment_def gate_open andThen_simps andThen_Write Println_def
        applied_def)
  have d: "IsRHELBased (config w) \<and> SupportsNetworkAssignment (config w) \<and>
    GetNetworkSettingsForHost driver (snd (Println ''Static assignment of IP address'' w)) = (Done ds, w1) \<longrightarrow>
      fst (ConfigureStaticAssignment driver w) = Done () \<and>
      (VMDriver (config w) = KVM \<or> VMDriver (config w) = VIRTUALBOX \<longrightarrow>
         sshLog (snd (ConfigureStaticAssignment driver w)) =
           sshLog w1 @ [applyCommand ds, applyCommand eth0DHCP]) \<and>
      (VMDriver (config w) = HYPERV \<or> VMDriver (config w) = XHYVE \<longrightarrow>
         sshLog (snd (ConfigureStaticAssignment driver w)) =
           sshLog w1 @ [applyCommand ds, applyCommand eth1Disabled])"
  proof (intro impI, elim conjE)
    assume g: "IsRHELBased (config w)" "SupportsNetworkAssignment (config w)"
      and disc: "GetNetworkSettingsForHost driver (snd (Println ''Static assignment of IP address'' w)) = (Done ds, w1)"
    from g have g': "IsRHELBased (config w) \<and> SupportsNetworkAssignment (config w)" by simp
    show "fst (ConfigureStaticAssignment driver w) = Done () \<and>
      (VMDriver (config w) = KVM \<or> VMDriver (config w) = VIRTUALBOX \<longrightarrow>
         sshLog (snd (ConfigureStaticAssignment driver w)) =
           sshLog w1 @ [applyCommand ds, applyCommand eth0DHCP]) \<and>
      (VMDriver (config w) = HYPERV \<or> VMDriver (config w) = XHYVE \<longrightarrow>
         sshLog (snd (ConfigureStaticAssignment driver w)) =
           sshLog w1 @ [applyCommand ds, applyCommand eth1Disabled])"
      by (auto simp add: static_run[OF g' disc] applied_def Let_def)
  qed
  from a b c d show ?thesis by blast
qed

theorem failed_write_does_not_stop_sibling_witness:
  "fst (WriteNetworkSettingsToHost (guest (Inl ''exit status 1'')) eth0DHCP (freshWorld KVM)) = Done False \<and>
   sshLog (snd (ConfigureDynamicAssignment (guest (Inl ''exit status 1'')) (freshWorld KVM))) =
     [applyCommand eth0DHCP, applyCommand eth1DHCP] \<and>
   sshLog (snd (ConfigureStaticAssignment (guest (Inl ''exit status 1'')) (freshWorld KVM))) =
     [deviceCommand ''192.168.99.100'', addressCommand ''eth1'', resolveCommand, gatewayCommand,
      applyCommand guestSettings, applyCommand eth0DHCP] \<and>
   sshLog (snd (ConfigureStaticAssignment (guest (Inl ''exit status 1'')) (freshWorld XHYVE))) =
     [deviceCommand ''192.168.99.100'', addressCommand ''eth1'', resolveCommand, gatewayCommand,
      applyCommand guestSettings, applyCommand eth1Disabled]"
  using failed_write_does_not_stop_sibling [of "guest (Inl ''exit status 1'')" eth0DHCP "freshWorld KVM" guestSettings
      "snd (GetNetworkSettingsForHost (guest (Inl ''exit status 1'')) (snd (Println ''Static assignment of IP address'' (freshWorld KVM))))"]
    failed_write_does_not_stop_sibling [of "guest (Inl ''exit status 1'')" eth0DHCP "freshWorld XHYVE" guestSettings
      "snd (GetNetworkSettingsForHost (guest (Inl ''exit status 1'')) (snd (Println ''Static assignment of IP address'' (freshWorld XHYVE))))"]
  by (simp add: fresh_gate fresh_kind guest_discovery guest_write_fails) (simp add: freshWorld_def Println_def)

section \<open>Properties of the storage driver\<close>

text \<open>
  C8. A non-empty supplied driver is returned as it is, and nothing is sent. With no
  supplied driver and the default \<open>aufs\<close>, once the probe of \<open>/var/lib\<close> has returned a
  file system type, the result is \<open>btrfs\<close> when that type is \<open>btrfs\<close> and \<open>aufs\<close> for any
  other type. With no supplied driver and another default, the default is returned and
  no command is sent to the guest.
\<close>

theorem storage_driver_resolution:
  "(suppliedDriver \<noteq> [] \<longrightarrow>
      decideStorageDriver p defaultDriver suppliedDriver l = (Inr suppliedDriver, l)) \<and>
   (suppliedDriver = [] \<and> defaultDriver = ''aufs'' \<and>
    fst (getFilesystemType p ''/var/lib'' l) = Inr remoteFilesystemType \<longrightarrow>
      fst (decideStorageDriver p defaultDriver suppliedDriver l) =
        Inr (if remoteFilesystemType = ''btrfs'' then ''btrfs'' else ''aufs'')) \<and>
   (suppliedDriver = [] \<and> defaultDriver \<noteq> ''aufs'' \<longrightarrow>
      fst (decideStorageDriver p defaultDriver suppliedDriver l) = Inr defaultDriver \<and>
      sshCommands (snd (decideStorageDriver p defaultDriver suppliedDriver l)) = sshCommands l)"
  by (auto simp add: decideStorageDriver_def deferredDebug_def split: prod.splits sum.splits)

lemma fs_probe:
  "fst (getFilesystemType (hostWithFilesystem ''btrfs'') ''/var/lib'' emptyLog) = Inr ''btrfs''"
  "fst (getFilesystemType (hostWithFilesystem ''ext2/ext3'') ''/var/lib'' emptyLog) = Inr ''ext2/ext3''"
  by (simp_all add: getFilesystemType_def hostWithFilesystem_def emptyLog_def Let_def
      TrimSpace_def isSpace_def nl_def)

theorem storage_driver_resolution_witness:
  "decideStorageDriver (hostWithFilesystem ''btrfs'') ''aufs'' ''overlay'' emptyLog = (Inr ''overlay'', emptyLog) \<and>
   fst (decideStorageDriver (hostWithFilesystem ''btrfs'') ''aufs'' [] emptyLog) = Inr ''btrfs'' \<and>
   fst (decideStorageDriver (hostWithFilesystem ''ext2/ext3'') ''aufs'' [] emptyLog) = Inr ''aufs'' \<and>
   fst (decideStorageDriver (hostWithFilesystem ''btrfs'') ''devicemapper'' [] emptyLog) = Inr ''devicemapper'' \<and>
   sshCommands (snd (decideStorageDriver (hostWithFilesystem ''btrfs'') ''devicemapper'' [] emptyLog)) = []"
  using storage_driver_resolution [of "''overlay''" "hostWithFilesystem ''btrfs''" "''aufs''" emptyLog "''btrfs''"]
    storage_driver_resolution [of "[]" "hostWithFilesystem ''btrfs''" "''aufs''" emptyLog "''btrfs''"]
    storage_driver_resolution [of "[]" "hostWithFilesystem ''ext2/ext3''" "''aufs''" emptyLog "''ext2/ext3''"]
    storage_driver_resolution [of "[]" "hostWithFilesystem ''btrfs''" "''devicemapper''" emptyLog "''btrfs''"]
  by (simp add: fs_probe) (simp add: emptyLog_def)

section \<open>Properties of the download\<close>

subsection \<open>Paths and the steps of a run\<close>

lemma Split_ne: "Split xs sep \<noteq> []"
  by (induction xs) (auto split: list.splits)

lemma Split_append: "Split (xs @ sep # ys) sep = Split xs sep @ Split ys sep"
  by (induction xs) (auto simp add: Split_ne split: list.splits)

lemma Split_plain: "sep \<notin> set xs \<Longrightarrow> Split xs sep = [xs]"
  by (induction xs) (auto split: list.splits)

lemma cleanParts_last:
  "p \<noteq> [] \<Longrightarrow> p \<noteq> ''.'' \<Longrightarrow> p \<noteq> ''..'' \<Longrightarrow> \<exists>pre. cleanParts r (ps @ [p]) kept = pre @ [p]"
  by (induction ps arbitrary: kept) (auto split: list.splits)

lemma joinWith_last: "\<exists>pre. joinWith sep (xs @ [p]) = pre @ p"
proof (induction xs rule: joinWith.induct[of _ sep])
  case (3 sep x y ys)
  then show ?case by (cases ys) auto
qed auto

lemma Clean_last:
  assumes "p \<noteq> []" "p \<noteq> ''.''" "p \<noteq> ''..''" "CHR ''/'' \<notin> set p"
  shows "\<exists>pre. Clean (d @ CHR ''/'' # p) = pre @ p"
proof -
  obtain a where a: "cleanParts (hd (d @ CHR ''/'' # p) = CHR ''/'') (Split d CHR ''/'' @ [p]) [] = a @ [p]"
    using cleanParts_last[OF assms(1-3)] by blast
  obtain b where b: "joinWith ''/'' (a @ [p]) = b @ p"
    using joinWith_last by blast
  show ?thesis
    using assms(1) a b
    by (auto simp add: Clean_def Split_append Split_plain[OF assms(4)] Let_def intro: exI[of _ "CHR ''/'' # b"])
qed

lemma Join_last:
  assumes "p \<noteq> []" "p \<noteq> ''.''" "p \<noteq> ''..''" "CHR ''/'' \<notin> set p"
  shows "\<exists>pre. Join [d, p] = pre @ p"
proof (cases "d = []")
  case True
  have "Clean p = p"
    using assms by (cases p) (auto simp add: Clean_def Split_plain Let_def)
  then show ?thesis using True assms(1) by (cases p) (auto simp add: Join_def)
next
  case False
  then obtain c cs where "d = c # cs" by (cases d) auto
  then show ?thesis using Clean_last[OF assms, of d] by (auto simp add: Join_def)
qed

lemma HasSuffix_append: "length suf \<le> length p \<Longrightarrow> HasSuffix (pre @ p) suf = HasSuffix p suf"
  by (simp add: HasSuffix_def)

lemma asset_tar: "osType \<noteq> WINDOWS \<Longrightarrow> HasSuffix (Join [d, targetFileOf osType]) TAR"
proof -
  assume "osType \<noteq> WINDOWS"
  then have t: "targetFileOf osType = ''oc.tar.gz''"
    by (simp add: targetFileOf_def extensionOf_def TAR_def)
  obtain pre where "Join [d, ''oc.tar.gz''] = pre @ ''oc.tar.gz''"
    using Join_last[of "''oc.tar.gz''" d] by auto
  then show ?thesis by (simp add: t TAR_def HasSuffix_append) (simp add: HasSuffix_def)
qed

lemma asset_zip:
  "\<not> HasSuffix (Join [d, ''oc.zip'']) TAR \<and> HasSuffix (Join [d, ''oc.zip'']) ZIP"
proof -
  obtain pre where "Join [d, ''oc.zip''] = pre @ ''oc.zip''"
    using Join_last[of "''oc.zip''" d] by auto
  then show ?thesis by (simp add: TAR_def ZIP_def HasSuffix_append) (simp add: HasSuffix_def)
qed

lemma excludeLoop_filter:
  "excludeLoop (Inr r) files acc = Inr (acc @ filter (\<lambda>f. MatchString (Inr r) f = Inr False) files)"
  by (induction files arbitrary: acc) (auto simp add: MatchString_def)

lemma excludeLoop_tar:
  "excludeLoop tarPattern (dirEntries env (tempName env)) [] = Inr (nonArchive env)"
  by (simp add: tarPattern_def nonArchive_def excludeLoop_filter)

lemma download_done:
  "download env url f [] [] tr = (Inr b, tr') \<Longrightarrow>
   tr' = tr @ [NewRequest url, HttpDo url None, Create f, CopyBody f]"
  by (auto simp add: download_def perform_def split: option.splits if_splits)

lemma download_ops:
  "set (snd (download env url f [] [] tr)) \<subseteq>
   set tr \<union> {NewRequest url, HttpDo url None, Create f, CopyBody f}"
  by (auto simp add: download_def perform_def split: option.splits if_splits)

lemma copy_done:
  "copy env s d tr = (None, tr') \<Longrightarrow> tr' = tr @ [Open s, Create d, CopyFile s d, Sync d]"
  by (auto simp add: copy_def perform_def split: option.splits)

lemma copy_ops:
  "set (snd (copy env s d tr)) \<subseteq> set tr \<union> {Open s, Create d, CopyFile s d, Sync d}"
  by (auto simp add: copy_def perform_def split: option.splits)

lemma copy_keeps: "set tr \<subseteq> set (snd (copy env s d tr))"
  by (auto simp add: copy_def perform_def split: option.splits)

lemma extract_zip:
  "\<not> HasSuffix asset TAR \<Longrightarrow> HasSuffix asset ZIP \<Longrightarrow>
   extractAsset env asset tmp tr =
     (case fails env (Unzip asset tmp) of
        Some err \<Rightarrow> (Inl ''Cannot unzip'', tr @ [Unzip asset tmp])
      | None \<Rightarrow> (Inr tmp, tr @ [Unzip asset tmp]))"
  by (simp add: extractAsset_def perform_def split: option.splits)

lemma extract_tar:
  "HasSuffix asset TAR \<Longrightarrow>
   extractAsset env asset (tempName env) tr =
     (let tarFile = take (length asset - 3) asset in
      if fails env (Ungzip asset tarFile) \<noteq> None
      then (Inl ''Cannot ungzip'', tr @ [Ungzip asset tarFile])
      else if fails env (Untar tarFile (tempName env)) \<noteq> None
      then (Inl ''Cannot untar'', tr @ [Ungzip asset tarFile, Untar tarFile (tempName env)])
      else if fails env (ReadDir (tempName env)) \<noteq> None
      then (Inl ''Cannot list content of'',
            tr @ [Ungzip asset tarFile, Untar tarFile (tempName env), ReadDir (tempName env)])
      else if 1 < length (nonArchive env)
      then (Inl (''Unexpected number of files in tmp directory: '' @ showStrings (nonArchive env)),
            tr @ [Ungzip asset tarFile, Untar tarFile (tempName env), ReadDir (tempName env)])
      else (Inr (tempName env),
            tr @ [Ungzip asset tarFile, Untar tarFile (tempName env), ReadDir (tempName env)]))"
  by (auto simp add: extractAsset_def perform_def listDirExcluding_def excludeLoop_tar Let_def
      split: option.splits)

lemma copy_keeps': "copy env s d tr = (r, tr') \<Longrightarrow> x \<in> set tr \<Longrightarrow> x \<in> set tr'"
  using copy_keeps[of tr env s d] by auto

lemma copy_no_http: "copy env s d tr = (r, tr') \<Longrightarrow> HttpDo u a \<in> set tr' \<Longrightarrow> HttpDo u a \<in> set tr"
  using copy_ops[of env s d tr] by auto

lemma extract_no_http:
  "extractAsset env asset tmp tr = (r, tr') \<Longrightarrow> HttpDo u a \<in> set tr' \<Longrightarrow> HttpDo u a \<in> set tr"
  by (auto simp add: extractAsset_def perform_def listDirExcluding_def Let_def
      split: option.splits if_splits sum.splits)

lemma download_http:
  "download env url f [] [] tr = (r, tr') \<Longrightarrow> HttpDo u a \<in> set tr' \<Longrightarrow>
   HttpDo u a \<in> set tr \<or> (u = url \<and> a = None)"
  using download_ops[of env url f tr] by auto

lemma fetchInto_http:
  assumes "HttpDo u a \<in> set (snd (fetchInto env version osType outputPath tmpDir tr))"
  shows "HttpDo u a \<in> set tr \<or> (u = mirrorURL version osType \<and> a = None)"
proof -
  obtain r1 tr1 where d: "download env (mirrorURL version osType)
      (Join [tmpDir, targetFileOf osType]) [] [] tr = (r1, tr1)"
    by force
  obtain r2 tr2 where e: "extractAsset env (Join [tmpDir, targetFileOf osType]) tmpDir tr1 = (r2, tr2)"
    by force
  have h1: "HttpDo u a \<in> set tr1 \<Longrightarrow> ?thesis"
    using download_http[OF d] by blast
  have h2: "HttpDo u a \<in> set tr2 \<Longrightarrow> ?thesis"
    using extract_no_http[OF e] h1 by blast
  show ?thesis
  proof (cases r1)
    case (Inl err)
    then show ?thesis using assms h1 by (simp add: fetchInto_def d Let_def)
  next
    case r1: (Inr b)
    show ?thesis
    proof (cases r2)
      case (Inl err)
      then show ?thesis using assms h2 by (simp add: fetchInto_def d e r1 Let_def)
    next
      case r2: (Inr dir)
      obtain r3 tr3 where c: "copy env (Join [dir, finalBinaryName osType])
          (Join [outputPath, finalBinaryName osType]) (tr2 @ [MkdirAll outputPath perm0755]) = (r3, tr3)"
        by force
      have h3: "HttpDo u a \<in> set tr3 \<Longrightarrow> ?thesis"
        using copy_no_http[OF c] h2 by auto
      show ?thesis
        using assms h2 h3
        by (auto simp add: fetchInto_def d e r1 r2 c Let_def perform_def split: option.splits if_splits)
    qed
  qed
qed



lemma fetchInto_windows_success:
  assumes "fetchInto env version WINDOWS outputPath tmpDir tr = (None, tr')"
  shows "tr' = tr @
        [NewRequest (mirrorURL version WINDOWS),
         HttpDo (mirrorURL version WINDOWS) None,
         Create (Join [tmpDir, ''oc.zip'']),
         CopyBody (Join [tmpDir, ''oc.zip'']),
         Unzip (Join [tmpDir, ''oc.zip'']) tmpDir,
         MkdirAll outputPath perm0755,
         Open (Join [tmpDir, ''oc.exe'']),
         Create (Join [outputPath, ''oc.exe'']),
         CopyFile (Join [tmpDir, ''oc.exe'']) (Join [outputPath, ''oc.exe'']),
         Sync (Join [outputPath, ''oc.exe'']),
         Chmod (Join [outputPath, ''oc.exe'']) perm0777]"
proof -
  have t: "targetFileOf WINDOWS = ''oc.zip''"
    by (simp add: targetFileOf_def extensionOf_def ZIP_def)
  have b: "finalBinaryName WINDOWS = ''oc.exe''"
    by (simp add: finalBinaryName_def)
  obtain r1 tr1 where d: "download env (mirrorURL version WINDOWS)
      (Join [tmpDir, ''oc.zip'']) [] [] tr = (r1, tr1)"
    by force
  obtain r3 tr3 where c: "copy env (Join [tmpDir, ''oc.exe''])
      (Join [outputPath, ''oc.exe''])
      (tr1 @ [Unzip (Join [tmpDir, ''oc.zip'']) tmpDir, MkdirAll outputPath perm0755]) = (r3, tr3)"
    by force
  note z = extract_zip[OF conjunct1[OF asset_zip] conjunct2[OF asset_zip], of env tmpDir tmpDir tr1]
  have shape: "(\<exists>ok. r1 = Inr ok) \<and> r3 = None \<and>
      tr' = tr3 @ [Chmod (Join [outputPath, ''oc.exe'']) perm0777]"
    using assms
    by (cases r1; cases r3)
       (auto simp add: fetchInto_def d t b z c Let_def perform_def
          split: option.splits if_splits)
  have tr1: "tr1 = tr @ [NewRequest (mirrorURL version WINDOWS),
         HttpDo (mirrorURL version WINDOWS) None,
         Create (Join [tmpDir, ''oc.zip'']), CopyBody (Join [tmpDir, ''oc.zip''])]"
    using download_done d shape by blast
  have tr3: "tr3 = (tr1 @ [Unzip (Join [tmpDir, ''oc.zip'']) tmpDir, MkdirAll outputPath perm0755]) @
         [Open (Join [tmpDir, ''oc.exe'']), Create (Join [outputPath, ''oc.exe'']),
          CopyFile (Join [tmpDir, ''oc.exe'']) (Join [outputPath, ''oc.exe'']),
          Sync (Join [outputPath, ''oc.exe''])]"
    using copy_done c shape by blast
  show ?thesis
    using shape by (simp add: tr1 tr3)
qed

subsection \<open>Concrete runs\<close>

lemma run_many:
  "DownloadOcpVersionFromMirror (host nothingFails [''LICENSE'', ''README.md'', ''oc'', ''oc.tar'', ''oc.tar.gz''])
     ''v3.7.0'' DARWIN ''/out'' [] =
   (Some ''Unexpected number of files in tmp directory: [LICENSE README.md oc]'',
    [TempDir [] ''minishift-asset-download-'',
     NewRequest (OMURL @ ''3.7.0/macosx/oc.tar.gz''),
     HttpDo (OMURL @ ''3.7.0/macosx/oc.tar.gz'') None,
     Create ''/tmp/minishift-asset-download-042/oc.tar.gz'',
     CopyBody ''/tmp/minishift-asset-download-042/oc.tar.gz'',
     Ungzip ''/tmp/minishift-asset-download-042/oc.tar.gz'' ''/tmp/minishift-asset-download-042/oc.tar'',
     Untar ''/tmp/minishift-asset-download-042/oc.tar'' ''/tmp/minishift-asset-download-042'',
     ReadDir ''/tmp/minishift-asset-download-042'',
     RemoveAll ''/tmp/minishift-asset-download-042''])"
  by code_simp

lemma run_none:
  "DownloadOcpVersionFromMirror (host binaryMissing [''oc.tar'', ''oc.tar.gz''])
     ''v3.7.0'' LINUX ''/out'' [] =
   (Some ''Cannot open src file: /tmp/minishift-asset-download-042/oc'',
    [TempDir [] ''minishift-asset-download-'',
     NewRequest (OMURL @ ''3.7.0/linux/oc.tar.gz''),
     HttpDo (OMURL @ ''3.7.0/linux/oc.tar.gz'') None,
     Create ''/tmp/minishift-asset-download-042/oc.tar.gz'',
     CopyBody ''/tmp/minishift-asset-download-042/oc.tar.gz'',
     Ungzip ''/tmp/minishift-asset-download-042/oc.tar.gz'' ''/tmp/minishift-asset-download-042/oc.tar'',
     Untar ''/tmp/minishift-asset-download-042/oc.tar'' ''/tmp/minishift-asset-download-042'',
     ReadDir ''/tmp/minishift-asset-download-042'',
     MkdirAll ''/out'' perm0755,
     Open ''/tmp/minishift-asset-download-042/oc'',
     RemoveAll ''/tmp/minishift-asset-download-042''])"
  by code_simp

lemma run_win:
  "DownloadOcpVersionFromMirror (host nothingFails [''oc.exe'', ''oc.zip''])
     ''v3.7.0'' WINDOWS ''/out'' [] =
   (None,
    [TempDir [] ''minishift-asset-download-'',
     NewRequest (OMURL @ ''3.7.0/windows/oc.zip''),
     HttpDo (OMURL @ ''3.7.0/windows/oc.zip'') None,
     Create ''/tmp/minishift-asset-download-042/oc.zip'',
     CopyBody ''/tmp/minishift-asset-download-042/oc.zip'',
     Unzip ''/tmp/minishift-asset-download-042/oc.zip'' ''/tmp/minishift-asset-download-042'',
     MkdirAll ''/out'' perm0755,
     Open ''/tmp/minishift-asset-download-042/oc.exe'',
     Create ''/out/oc.exe'',
     CopyFile ''/tmp/minishift-asset-download-042/oc.exe'' ''/out/oc.exe'',
     Sync ''/out/oc.exe'',
     Chmod ''/out/oc.exe'' perm0777,
     RemoveAll ''/tmp/minishift-asset-download-042''])"
  by code_simp

lemma na_many: "nonArchive (host f [''LICENSE'', ''README.md'', ''oc'', ''oc.tar'', ''oc.tar.gz'']) = [''LICENSE'', ''README.md'', ''oc'']"
  by code_simp

lemma run_one:
  "DownloadOcpVersionFromMirror (host nothingFails [''oc'', ''oc.tar'', ''oc.tar.gz''])
     ''v3.7.0'' LINUX ''/out'' [] =
   (None,
    [TempDir [] ''minishift-asset-download-'',
     NewRequest (OMURL @ ''3.7.0/linux/oc.tar.gz''),
     HttpDo (OMURL @ ''3.7.0/linux/oc.tar.gz'') None,
     Create ''/tmp/minishift-asset-download-042/oc.tar.gz'',
     CopyBody ''/tmp/minishift-asset-download-042/oc.tar.gz'',
     Ungzip ''/tmp/minishift-asset-download-042/oc.tar.gz'' ''/tmp/minishift-asset-download-042/oc.tar'',
     Untar ''/tmp/minishift-asset-download-042/oc.tar'' ''/tmp/minishift-asset-download-042'',
     ReadDir ''/tmp/minishift-asset-download-042'',
     MkdirAll ''/out'' perm0755,
     Open ''/tmp/minishift-asset-download-042/oc'',
     Create ''/out/oc'',
     CopyFile ''/tmp/minishift-asset-download-042/oc'' ''/out/oc'',
     Sync ''/out/oc'',
     Chmod ''/out/oc'' perm0777,
     RemoveAll ''/tmp/minishift-asset-download-042''])"
  by code_simp

lemma na_one: "nonArchive (host f [''oc'', ''oc.tar'', ''oc.tar.gz'']) = [''oc'']"
  by code_simp

lemma na_none: "nonArchive (host f [''oc.tar'', ''oc.tar.gz'']) = []"
  by code_simp

subsection \<open>Names computed from the platform\<close>

lemma extract_ops:
  "set (snd (extractAsset env asset tmp tr)) \<subseteq>
   set tr \<union> {Ungzip asset (take (length asset - 3) asset),
             Untar (take (length asset - 3) asset) tmp, ReadDir tmp, Unzip asset tmp}"
  by (auto simp add: extractAsset_def perform_def listDirExcluding_def Let_def
      split: option.splits if_splits sum.splits)

lemma extract_keeps: "set tr \<subseteq> set (snd (extractAsset env asset tmp tr))"
  by (auto simp add: extractAsset_def perform_def listDirExcluding_def Let_def
      split: option.splits if_splits sum.splits)

lemma HasSuffix_last: "HasSuffix s suffix \<Longrightarrow> suffix \<noteq> [] \<Longrightarrow> last s = last suffix"
proof -
  assume h: "HasSuffix s suffix" and n: "suffix \<noteq> []"
  then have "s = take (length s - length suffix) s @ suffix"
    by (metis HasSuffix_def append_take_drop_id)
  then show ?thesis using n by (metis last_appendR)
qed

lemma binary_suffix:
  "HasSuffix (Join [d, ''oc.exe'']) ''.exe''" "\<not> HasSuffix (Join [d, ''oc'']) ''.exe''"
proof -
  obtain pre where "Join [d, ''oc.exe''] = pre @ ''oc.exe''"
    using Join_last[of "''oc.exe''" d] by auto
  then show "HasSuffix (Join [d, ''oc.exe'']) ''.exe''"
    by (simp add: HasSuffix_append) (simp add: HasSuffix_def)
  obtain pre' where p: "Join [d, ''oc''] = pre' @ ''oc''"
    using Join_last[of "''oc''" d] by auto
  show "\<not> HasSuffix (Join [d, ''oc'']) ''.exe''"
  proof
    assume "HasSuffix (Join [d, ''oc'']) ''.exe''"
    then have "last (Join [d, ''oc'']) = last ''.exe''"
      by (rule HasSuffix_last) simp
    then show False by (simp add: p)
  qed
qed

lemma archive_suffix:
  "HasSuffix (Join [d, ''oc.zip'']) ''.zip''" "\<not> HasSuffix (Join [d, ''oc.zip'']) ''.tar.gz''"
  "HasSuffix (Join [d, ''oc.tar.gz'']) ''.tar.gz''" "\<not> HasSuffix (Join [d, ''oc.tar.gz'']) ''.zip''"
proof -
  obtain pre where z: "Join [d, ''oc.zip''] = pre @ ''oc.zip''"
    using Join_last[of "''oc.zip''" d] by auto
  obtain pre' where t: "Join [d, ''oc.tar.gz''] = pre' @ ''oc.tar.gz''"
    using Join_last[of "''oc.tar.gz''" d] by auto
  show "HasSuffix (Join [d, ''oc.zip'']) ''.zip''"
    by (simp add: z HasSuffix_append) (simp add: HasSuffix_def)
  show "HasSuffix (Join [d, ''oc.tar.gz'']) ''.tar.gz''"
    by (simp add: t HasSuffix_append) (simp add: HasSuffix_def)
  show "\<not> HasSuffix (Join [d, ''oc.zip'']) ''.tar.gz''"
    by (simp add: z HasSuffix_append) (simp add: HasSuffix_def)
  show "\<not> HasSuffix (Join [d, ''oc.tar.gz'']) ''.zip''"
    by (simp add: t HasSuffix_append) (simp add: HasSuffix_def)
qed


lemma fetchInto_names:
  assumes "x \<in> set (snd (fetchInto env version osType outputPath tmpDir tr))"
  shows "x \<in> set tr \<or>
         (case x of
            NewRequest u \<Rightarrow> u = mirrorURL version osType
          | CopyBody f \<Rightarrow> f = Join [tmpDir, targetFileOf osType]
          | Chmod p m \<Rightarrow> p = Join [outputPath, finalBinaryName osType] \<and> m = perm0777
          | _ \<Rightarrow> True)"
proof -
  define r1 where "r1 = fst (download env (mirrorURL version osType)
      (Join [tmpDir, targetFileOf osType]) [] [] tr)"
  define tr1 where "tr1 = snd (download env (mirrorURL version osType)
      (Join [tmpDir, targetFileOf osType]) [] [] tr)"
  define r2 where "r2 = fst (extractAsset env (Join [tmpDir, targetFileOf osType]) tmpDir tr1)"
  define tr2 where "tr2 = snd (extractAsset env (Join [tmpDir, targetFileOf osType]) tmpDir tr1)"
  have d: "download env (mirrorURL version osType)
      (Join [tmpDir, targetFileOf osType]) [] [] tr = (r1, tr1)"
    by (simp add: r1_def tr1_def)
  have e: "extractAsset env (Join [tmpDir, targetFileOf osType]) tmpDir tr1 = (r2, tr2)"
    by (simp add: r2_def tr2_def)
  have h1: "x \<in> set tr1 \<Longrightarrow> ?thesis"
    using download_ops[of env "mirrorURL version osType" "Join [tmpDir, targetFileOf osType]" tr]
    by (auto simp add: tr1_def)
  have h2: "x \<in> set tr2 \<Longrightarrow> ?thesis"
  proof -
    assume "x \<in> set tr2"
    then have "x \<in> set tr1 \<or> x \<in> {Ungzip (Join [tmpDir, targetFileOf osType])
        (take (length (Join [tmpDir, targetFileOf osType]) - 3) (Join [tmpDir, targetFileOf osType])),
        Untar (take (length (Join [tmpDir, targetFileOf osType]) - 3) (Join [tmpDir, targetFileOf osType])) tmpDir,
        ReadDir tmpDir, Unzip (Join [tmpDir, targetFileOf osType]) tmpDir}"
      using extract_ops[of env "Join [tmpDir, targetFileOf osType]" tmpDir tr1]
      by (auto simp add: tr2_def)
    then show ?thesis using h1 by auto
  qed
  show ?thesis
  proof (cases r1)
    case (Inl err)
    then show ?thesis using assms h1 by (simp add: fetchInto_def d Let_def)
  next
    case r1: (Inr b)
    show ?thesis
    proof (cases r2)
      case (Inl err)
      then show ?thesis using assms h2 by (simp add: fetchInto_def d e r1 Let_def)
    next
      case r2: (Inr dir)
      define r3 where "r3 = fst (copy env (Join [dir, finalBinaryName osType])
          (Join [outputPath, finalBinaryName osType]) (tr2 @ [MkdirAll outputPath perm0755]))"
      define tr3 where "tr3 = snd (copy env (Join [dir, finalBinaryName osType])
          (Join [outputPath, finalBinaryName osType]) (tr2 @ [MkdirAll outputPath perm0755]))"
      have c: "copy env (Join [dir, finalBinaryName osType])
          (Join [outputPath, finalBinaryName osType]) (tr2 @ [MkdirAll outputPath perm0755]) = (r3, tr3)"
        by (simp add: r3_def tr3_def)
      have h3: "x \<in> set tr3 \<Longrightarrow> ?thesis"
      proof -
        assume "x \<in> set tr3"
        then have "x \<in> set tr2 \<or> x \<in> {MkdirAll outputPath perm0755,
            Open (Join [dir, finalBinaryName osType]),
            Create (Join [outputPath, finalBinaryName osType]),
            CopyFile (Join [dir, finalBinaryName osType]) (Join [outputPath, finalBinaryName osType]),
            Sync (Join [outputPath, finalBinaryName osType])}"
          using copy_ops[of env "Join [dir, finalBinaryName osType]"
              "Join [outputPath, finalBinaryName osType]" "tr2 @ [MkdirAll outputPath perm0755]"]
          by (auto simp add: tr3_def)
        then show ?thesis using h2 by auto
      qed
      have h4: "x = MkdirAll outputPath perm0755 \<Longrightarrow> ?thesis"
        by simp
      have h5: "x = Chmod (Join [outputPath, finalBinaryName osType]) perm0777 \<Longrightarrow> ?thesis"
        by simp
      have "x \<in> set tr2 \<or> x \<in> set tr3 \<or> x = MkdirAll outputPath perm0755 \<or>
            x = Chmod (Join [outputPath, finalBinaryName osType]) perm0777"
        using assms
        by (cases r3)
           (auto simp add: fetchInto_def d e r1 r2 c Let_def perform_def split: option.splits if_splits)
      then show ?thesis using h2 h3 h4 h5 by blast
    qed
  qed
qed

lemma fetchInto_success:
  assumes "fetchInto env version osType outputPath tmpDir tr = (None, tr')"
  shows "CopyBody (Join [tmpDir, targetFileOf osType]) \<in> set tr' \<and>
         Chmod (Join [outputPath, finalBinaryName osType]) perm0777 \<in> set tr'"
proof -
  define r1 where "r1 = fst (download env (mirrorURL version osType)
      (Join [tmpDir, targetFileOf osType]) [] [] tr)"
  define tr1 where "tr1 = snd (download env (mirrorURL version osType)
      (Join [tmpDir, targetFileOf osType]) [] [] tr)"
  define r2 where "r2 = fst (extractAsset env (Join [tmpDir, targetFileOf osType]) tmpDir tr1)"
  define tr2 where "tr2 = snd (extractAsset env (Join [tmpDir, targetFileOf osType]) tmpDir tr1)"
  have d: "download env (mirrorURL version osType)
      (Join [tmpDir, targetFileOf osType]) [] [] tr = (r1, tr1)"
    by (simp add: r1_def tr1_def)
  have e: "extractAsset env (Join [tmpDir, targetFileOf osType]) tmpDir tr1 = (r2, tr2)"
    by (simp add: r2_def tr2_def)
  have k2: "set tr1 \<subseteq> set tr2"
    using extract_keeps[of tr1 env "Join [tmpDir, targetFileOf osType]" tmpDir] by (simp add: tr2_def)
  show ?thesis
  proof (cases r1)
    case (Inl err)
    then show ?thesis using assms by (simp add: fetchInto_def d Let_def)
  next
    case r1: (Inr b)
    have "tr1 = tr @ [NewRequest (mirrorURL version osType), HttpDo (mirrorURL version osType) None,
        Create (Join [tmpDir, targetFileOf osType]), CopyBody (Join [tmpDir, targetFileOf osType])]"
      using download_done d r1 by blast
    then have b1: "CopyBody (Join [tmpDir, targetFileOf osType]) \<in> set tr1"
      by simp
    then have b2: "CopyBody (Join [tmpDir, targetFileOf osType]) \<in> set tr2"
      using k2 by blast
    show ?thesis
    proof (cases r2)
      case (Inl err)
      then show ?thesis using assms by (simp add: fetchInto_def d e r1 Let_def)
    next
      case r2: (Inr dir)
      define r3 where "r3 = fst (copy env (Join [dir, finalBinaryName osType])
          (Join [outputPath, finalBinaryName osType]) (tr2 @ [MkdirAll outputPath perm0755]))"
      define tr3 where "tr3 = snd (copy env (Join [dir, finalBinaryName osType])
          (Join [outputPath, finalBinaryName osType]) (tr2 @ [MkdirAll outputPath perm0755]))"
      have c: "copy env (Join [dir, finalBinaryName osType])
          (Join [outputPath, finalBinaryName osType]) (tr2 @ [MkdirAll outputPath perm0755]) = (r3, tr3)"
        by (simp add: r3_def tr3_def)
      have b3: "CopyBody (Join [tmpDir, targetFileOf osType]) \<in> set tr3"
        using copy_keeps'[OF c, of "CopyBody (Join [tmpDir, targetFileOf osType])"] b2 by simp
      have "tr' = tr3 @ [Chmod (Join [outputPath, finalBinaryName osType]) perm0777]"
        using assms
        by (cases r3)
           (auto simp add: fetchInto_def d e r1 r2 c Let_def perform_def split: option.splits if_splits)
      then show ?thesis using b3 by simp
    qed
  qed
qed

lemma host_paths:
  "Join [tempName (host f es), ''oc.zip''] = ''/tmp/minishift-asset-download-042/oc.zip''"
  "Join [tempName (host f es), ''oc.tar.gz''] = ''/tmp/minishift-asset-download-042/oc.tar.gz''"
  "Join [tempName (host f es), ''oc''] = ''/tmp/minishift-asset-download-042/oc''"
  "Join [''/out'', ''oc.exe''] = ''/out/oc.exe''"
  "Join [''/out'', ''oc''] = ''/out/oc''"
  by code_simp+

text \<open>
  C3. In every run of \<open>DownloadOcpVersionFromMirror\<close>, for every platform: the URL of a
  request ends in \<open>/oc.zip\<close> for Windows and in \<open>/oc.tar.gz\<close> otherwise; the file the
  archive is written to is \<open>oc.zip\<close> in the temporary directory for Windows and
  \<open>oc.tar.gz\<close> otherwise, so it ends in \<open>.zip\<close> exactly for Windows and in \<open>.tar.gz\<close>
  exactly for the others; the file made executable is \<open>oc.exe\<close> in the output directory
  for Windows and \<open>oc\<close> otherwise, so it ends in \<open>.exe\<close> exactly for Windows. A run that
  returns no error has written that archive and made that binary executable. \<open>LINUX\<close> and
  \<open>DARWIN\<close> are platforms other than \<open>WINDOWS\<close>.
\<close>

theorem platform_decides_archive_and_binary_names:
  "(NewRequest url \<in> set (snd (DownloadOcpVersionFromMirror env version osType outputPath [])) \<longrightarrow>
      url = OMURL @ TrimPrefix version ''v'' @ ''/'' @
            (if osType = DARWIN then ''macosx'' else osType) @
            (if osType = WINDOWS then ''/oc.zip'' else ''/oc.tar.gz'')) \<and>
   (CopyBody f \<in> set (snd (DownloadOcpVersionFromMirror env version osType outputPath [])) \<longrightarrow>
      f = Join [tempName env, if osType = WINDOWS then ''oc.zip'' else ''oc.tar.gz''] \<and>
      (HasSuffix f ''.zip'' \<longleftrightarrow> osType = WINDOWS) \<and>
      (HasSuffix f ''.tar.gz'' \<longleftrightarrow> osType \<noteq> WINDOWS)) \<and>
   (Chmod p m \<in> set (snd (DownloadOcpVersionFromMirror env version osType outputPath [])) \<longrightarrow>
      p = Join [outputPath, if osType = WINDOWS then ''oc.exe'' else ''oc''] \<and>
      (HasSuffix p ''.exe'' \<longleftrightarrow> osType = WINDOWS)) \<and>
   (fst (DownloadOcpVersionFromMirror env version osType outputPath []) = None \<longrightarrow>
      CopyBody (Join [tempName env, if osType = WINDOWS then ''oc.zip'' else ''oc.tar.gz'']) \<in>
        set (snd (DownloadOcpVersionFromMirror env version osType outputPath [])) \<and>
      Chmod (Join [outputPath, if osType = WINDOWS then ''oc.exe'' else ''oc'']) perm0777 \<in>
        set (snd (DownloadOcpVersionFromMirror env version osType outputPath []))) \<and>
   LINUX \<noteq> WINDOWS \<and> DARWIN \<noteq> WINDOWS"
proof -
  define start where "start = [TempDir [] ''minishift-asset-download-'']"
  define fetched where "fetched = fetchInto env version osType outputPath (tempName env) start"
  have run: "DownloadOcpVersionFromMirror env version osType outputPath [] =
      (case fails env (TempDir [] ''minishift-asset-download-'') of
         Some err \<Rightarrow> (Some ''Cannot create temporary download directory.'', start)
       | None \<Rightarrow> (fst fetched, snd fetched @ [RemoveAll (tempName env)]))"
    by (simp add: DownloadOcpVersionFromMirror_def perform_def fetched_def start_def Let_def
        split: option.splits prod.splits)
  have inner: "x \<in> set (snd (DownloadOcpVersionFromMirror env version osType outputPath [])) \<Longrightarrow>
      x \<in> set start \<or> x = RemoveAll (tempName env) \<or> x \<in> set (snd fetched)" for x
    by (auto simp add: run split: option.splits)
  have tf: "targetFileOf osType = (if osType = WINDOWS then ''oc.zip'' else ''oc.tar.gz'')"
    by (simp add: targetFileOf_def extensionOf_def ZIP_def TAR_def)
  have bn: "finalBinaryName osType = (if osType = WINDOWS then ''oc.exe'' else ''oc'')"
    by (simp add: finalBinaryName_def)
  have mu: "mirrorURL version osType = OMURL @ TrimPrefix version ''v'' @ ''/'' @
            (if osType = DARWIN then ''macosx'' else osType) @
            (if osType = WINDOWS then ''/oc.zip'' else ''/oc.tar.gz'')"
    by (simp add: mirrorURL_def platformOf_def extensionOf_def ZIP_def TAR_def)
  have a: "NewRequest url \<in> set (snd (DownloadOcpVersionFromMirror env version osType outputPath [])) \<Longrightarrow>
      url = mirrorURL version osType"
  proof -
    assume "NewRequest url \<in> set (snd (DownloadOcpVersionFromMirror env version osType outputPath []))"
    then have "NewRequest url \<in> set (snd fetched)"
      using inner[of "NewRequest url"] by (simp add: start_def)
    then show ?thesis
      using fetchInto_names[of "NewRequest url" env version osType outputPath "tempName env" start]
      by (simp add: fetched_def start_def)
  qed
  have b: "CopyBody f \<in> set (snd (DownloadOcpVersionFromMirror env version osType outputPath [])) \<Longrightarrow>
      f = Join [tempName env, targetFileOf osType]"
  proof -
    assume "CopyBody f \<in> set (snd (DownloadOcpVersionFromMirror env version osType outputPath []))"
    then have "CopyBody f \<in> set (snd fetched)"
      using inner[of "CopyBody f"] by (simp add: start_def)
    then show ?thesis
      using fetchInto_names[of "CopyBody f" env version osType outputPath "tempName env" start]
      by (simp add: fetched_def start_def)
  qed
  have c: "Chmod p m \<in> set (snd (DownloadOcpVersionFromMirror env version osType outputPath [])) \<Longrightarrow>
      p = Join [outputPath, finalBinaryName osType]"
  proof -
    assume "Chmod p m \<in> set (snd (DownloadOcpVersionFromMirror env version osType outputPath []))"
    then have "Chmod p m \<in> set (snd fetched)"
      using inner[of "Chmod p m"] by (simp add: start_def)
    then show ?thesis
      using fetchInto_names[of "Chmod p m" env version osType outputPath "tempName env" start]
      by (simp add: fetched_def start_def)
  qed
  have s: "fst (DownloadOcpVersionFromMirror env version osType outputPath []) = None \<Longrightarrow>
      CopyBody (Join [tempName env, targetFileOf osType]) \<in>
        set (snd (DownloadOcpVersionFromMirror env version osType outputPath [])) \<and>
      Chmod (Join [outputPath, finalBinaryName osType]) perm0777 \<in>
        set (snd (DownloadOcpVersionFromMirror env version osType outputPath []))"
  proof -
    assume n: "fst (DownloadOcpVersionFromMirror env version osType outputPath []) = None"
    then have t: "fails env (TempDir [] ''minishift-asset-download-'') = None"
      by (cases "fails env (TempDir [] ''minishift-asset-download-'')") (simp_all add: run)
    then have "fst fetched = None" using n by (simp add: run)
    then have "fetchInto env version osType outputPath (tempName env) start = (None, snd fetched)"
      by (simp add: fetched_def prod_eq_iff)
    from fetchInto_success[OF this] show ?thesis
      by (simp add: run t)
  qed
  have sfx: "(HasSuffix (Join [tempName env, targetFileOf osType]) ''.zip'' \<longleftrightarrow> osType = WINDOWS) \<and>
      (HasSuffix (Join [tempName env, targetFileOf osType]) ''.tar.gz'' \<longleftrightarrow> osType \<noteq> WINDOWS) \<and>
      (HasSuffix (Join [outputPath, finalBinaryName osType]) ''.exe'' \<longleftrightarrow> osType = WINDOWS)"
    by (simp add: tf bn archive_suffix binary_suffix)
  have os: "LINUX \<noteq> WINDOWS \<and> DARWIN \<noteq> WINDOWS"
    by (simp add: LINUX_def DARWIN_def WINDOWS_def)
  show ?thesis
  proof (intro conjI impI)
    assume h: "NewRequest url \<in> set (snd (DownloadOcpVersionFromMirror env version osType outputPath []))"
    show "url = OMURL @ TrimPrefix version ''v'' @ ''/'' @
            (if osType = DARWIN then ''macosx'' else osType) @
            (if osType = WINDOWS then ''/oc.zip'' else ''/oc.tar.gz'')"
      unfolding a[OF h] by (rule mu)
  next
    assume h: "CopyBody f \<in> set (snd (DownloadOcpVersionFromMirror env version osType outputPath []))"
    show "f = Join [tempName env, if osType = WINDOWS then ''oc.zip'' else ''oc.tar.gz'']"
      unfolding b[OF h] tf by (rule refl)
    show "HasSuffix f ''.zip'' \<longleftrightarrow> osType = WINDOWS"
      unfolding b[OF h] using sfx by blast
    show "HasSuffix f ''.tar.gz'' \<longleftrightarrow> osType \<noteq> WINDOWS"
      unfolding b[OF h] using sfx by blast
  next
    assume h: "Chmod p m \<in> set (snd (DownloadOcpVersionFromMirror env version osType outputPath []))"
    show "p = Join [outputPath, if osType = WINDOWS then ''oc.exe'' else ''oc'']"
      unfolding c[OF h] bn by (rule refl)
    show "HasSuffix p ''.exe'' \<longleftrightarrow> osType = WINDOWS"
      unfolding c[OF h] using sfx by blast
  next
    assume n: "fst (DownloadOcpVersionFromMirror env version osType outputPath []) = None"
    show "CopyBody (Join [tempName env, if osType = WINDOWS then ''oc.zip'' else ''oc.tar.gz'']) \<in>
        set (snd (DownloadOcpVersionFromMirror env version osType outputPath []))"
      using s[OF n] unfolding tf by blast
    show "Chmod (Join [outputPath, if osType = WINDOWS then ''oc.exe'' else ''oc'']) perm0777 \<in>
        set (snd (DownloadOcpVersionFromMirror env version osType outputPath []))"
      using s[OF n] unfolding bn by blast
  next
    show "LINUX \<noteq> WINDOWS" using os by blast
    show "DARWIN \<noteq> WINDOWS" using os by blast
  qed
qed

theorem platform_decides_archive_and_binary_names_witness:
  "fst (DownloadOcpVersionFromMirror (host nothingFails [''oc.exe'', ''oc.zip''])
          ''v3.7.0'' WINDOWS ''/out'' []) = None \<and>
   NewRequest (OMURL @ ''3.7.0/windows/oc.zip'') \<in>
     set (snd (DownloadOcpVersionFromMirror (host nothingFails [''oc.exe'', ''oc.zip''])
                 ''v3.7.0'' WINDOWS ''/out'' [])) \<and>
   CopyBody ''/tmp/minishift-asset-download-042/oc.zip'' \<in>
     set (snd (DownloadOcpVersionFromMirror (host nothingFails [''oc.exe'', ''oc.zip''])
                 ''v3.7.0'' WINDOWS ''/out'' [])) \<and>
   HasSuffix ''/tmp/minishift-asset-download-042/oc.zip'' ''.zip'' \<and>
   Chmod ''/out/oc.exe'' perm0777 \<in>
     set (snd (DownloadOcpVersionFromMirror (host nothingFails [''oc.exe'', ''oc.zip''])
                 ''v3.7.0'' WINDOWS ''/out'' [])) \<and>
   HasSuffix ''/out/oc.exe'' ''.exe'' \<and>
   fst (DownloadOcpVersionFromMirror (host nothingFails [''oc'', ''oc.tar'', ''oc.tar.gz''])
          ''v3.7.0'' LINUX ''/out'' []) = None \<and>
   NewRequest (OMURL @ ''3.7.0/linux/oc.tar.gz'') \<in>
     set (snd (DownloadOcpVersionFromMirror (host nothingFails [''oc'', ''oc.tar'', ''oc.tar.gz''])
                 ''v3.7.0'' LINUX ''/out'' [])) \<and>
   CopyBody ''/tmp/minishift-asset-download-042/oc.tar.gz'' \<in>
     set (snd (DownloadOcpVersionFromMirror (host nothingFails [''oc'', ''oc.tar'', ''oc.tar.gz''])
                 ''v3.7.0'' LINUX ''/out'' [])) \<and>
   HasSuffix ''/tmp/minishift-asset-download-042/oc.tar.gz'' ''.tar.gz'' \<and>
   \<not> HasSuffix ''/tmp/minishift-asset-download-042/oc.tar.gz'' ''.zip'' \<and>
   Chmod ''/out/oc'' perm0777 \<in>
     set (snd (DownloadOcpVersionFromMirror (host nothingFails [''oc'', ''oc.tar'', ''oc.tar.gz''])
                 ''v3.7.0'' LINUX ''/out'' [])) \<and>
   \<not> HasSuffix ''/out/oc'' ''.exe'' \<and>
   NewRequest (OMURL @ ''3.7.0/macosx/oc.tar.gz'') \<in>
     set (snd (DownloadOcpVersionFromMirror
                 (host nothingFails [''LICENSE'', ''README.md'', ''oc'', ''oc.tar'', ''oc.tar.gz''])
                 ''v3.7.0'' DARWIN ''/out'' []))"
proof -
  have os: "LINUX \<noteq> WINDOWS" "DARWIN \<noteq> WINDOWS" "LINUX \<noteq> DARWIN" "WINDOWS \<noteq> DARWIN"
    by (simp_all add: LINUX_def DARWIN_def WINDOWS_def)
  note win = platform_decides_archive_and_binary_names
    [where url = "OMURL @ ''3.7.0/windows/oc.zip''"
       and f = "''/tmp/minishift-asset-download-042/oc.zip''"
       and p = "''/out/oc.exe''" and m = perm0777
       and env = "host nothingFails [''oc.exe'', ''oc.zip'']"
       and version = "''v3.7.0''" and osType = WINDOWS and outputPath = "''/out''"]
  note lin = platform_decides_archive_and_binary_names
    [where url = "OMURL @ ''3.7.0/linux/oc.tar.gz''"
       and f = "''/tmp/minishift-asset-download-042/oc.tar.gz''"
       and p = "''/out/oc''" and m = perm0777
       and env = "host nothingFails [''oc'', ''oc.tar'', ''oc.tar.gz'']"
       and version = "''v3.7.0''" and osType = LINUX and outputPath = "''/out''"]
  note mac = platform_decides_archive_and_binary_names
    [where url = "OMURL @ ''3.7.0/macosx/oc.tar.gz''"
       and f = "''/tmp/minishift-asset-download-042/oc.tar.gz''"
       and p = "''/out/oc''" and m = perm0777
       and env = "host nothingFails [''LICENSE'', ''README.md'', ''oc'', ''oc.tar'', ''oc.tar.gz'']"
       and version = "''v3.7.0''" and osType = DARWIN and outputPath = "''/out''"]
  show ?thesis
    using win lin mac
    by (simp add: run_win run_one run_many os host_paths)
qed

subsection \<open>The Windows scenario\<close>

text \<open>
  C4. For version \<open>v3.7.0\<close>, platform Windows and output directory \<open>/out\<close>, the URL is the
  mirror base followed by \<open>3.7.0/windows/oc.zip\<close>; every request the run makes is an
  unauthenticated request for that URL; and a run that returns no error has performed
  exactly: create the temporary directory, request the URL, write the archive, unzip it,
  create \<open>/out\<close>, copy \<open>oc.exe\<close> from the temporary directory to \<open>/out/oc.exe\<close>, sync,
  set the mode of \<open>/out/oc.exe\<close> to \<open>0777\<close>, remove the temporary directory.
\<close>

theorem windows_download_scenario:
  "mirrorURL ''v3.7.0'' WINDOWS = OMURL @ ''3.7.0/windows/oc.zip'' \<and>
   (HttpDo u a \<in> set (snd (DownloadOcpVersionFromMirror env ''v3.7.0'' WINDOWS ''/out'' [])) \<longrightarrow>
      u = OMURL @ ''3.7.0/windows/oc.zip'' \<and> a = None) \<and>
   (fst (DownloadOcpVersionFromMirror env ''v3.7.0'' WINDOWS ''/out'' []) = None \<longrightarrow>
      snd (DownloadOcpVersionFromMirror env ''v3.7.0'' WINDOWS ''/out'' []) =
        [TempDir [] ''minishift-asset-download-'',
         NewRequest (OMURL @ ''3.7.0/windows/oc.zip''),
         HttpDo (OMURL @ ''3.7.0/windows/oc.zip'') None,
         Create (Join [tempName env, ''oc.zip'']),
         CopyBody (Join [tempName env, ''oc.zip'']),
         Unzip (Join [tempName env, ''oc.zip'']) (tempName env),
         MkdirAll ''/out'' perm0755,
         Open (Join [tempName env, ''oc.exe'']),
         Create ''/out/oc.exe'',
         CopyFile (Join [tempName env, ''oc.exe'']) ''/out/oc.exe'',
         Sync ''/out/oc.exe'',
         Chmod ''/out/oc.exe'' perm0777,
         RemoveAll (tempName env)])"
proof -
  have u: "mirrorURL ''v3.7.0'' WINDOWS = OMURL @ ''3.7.0/windows/oc.zip''"
    by (simp add: mirrorURL_def TrimPrefix_def platformOf_def extensionOf_def WINDOWS_def DARWIN_def ZIP_def)
  have j: "Join [''/out'', ''oc.exe''] = ''/out/oc.exe''"
    by (simp add: Join_def Clean_def)
  define r where "r = fst (fetchInto env ''v3.7.0'' WINDOWS ''/out'' (tempName env)
      [TempDir [] ''minishift-asset-download-''])"
  define tr where "tr = snd (fetchInto env ''v3.7.0'' WINDOWS ''/out'' (tempName env)
      [TempDir [] ''minishift-asset-download-''])"
  have f: "fetchInto env ''v3.7.0'' WINDOWS ''/out'' (tempName env)
      [TempDir [] ''minishift-asset-download-''] = (r, tr)"
    by (simp add: r_def tr_def)
  have h: "HttpDo u a \<in> set tr \<Longrightarrow> u = OMURL @ ''3.7.0/windows/oc.zip'' \<and> a = None"
    using fetchInto_http[of u a env "''v3.7.0''" WINDOWS "''/out''" "tempName env" "[TempDir [] ''minishift-asset-download-'']"]
    by (simp add: f u)
  have s: "r = None \<Longrightarrow> tr = [TempDir [] ''minishift-asset-download-''] @
        [NewRequest (OMURL @ ''3.7.0/windows/oc.zip''),
         HttpDo (OMURL @ ''3.7.0/windows/oc.zip'') None,
         Create (Join [tempName env, ''oc.zip'']),
         CopyBody (Join [tempName env, ''oc.zip'']),
         Unzip (Join [tempName env, ''oc.zip'']) (tempName env),
         MkdirAll ''/out'' perm0755,
         Open (Join [tempName env, ''oc.exe'']),
         Create ''/out/oc.exe'',
         CopyFile (Join [tempName env, ''oc.exe'']) ''/out/oc.exe'',
         Sync ''/out/oc.exe'',
         Chmod ''/out/oc.exe'' perm0777]"
    using fetchInto_windows_success[of env "''v3.7.0''" "''/out''" "tempName env" "[TempDir [] ''minishift-asset-download-'']" tr]
    by (simp add: f u j)
  have run: "DownloadOcpVersionFromMirror env ''v3.7.0'' WINDOWS ''/out'' [] =
      (case fails env (TempDir [] ''minishift-asset-download-'') of
         Some err \<Rightarrow> (Some ''Cannot create temporary download directory.'',
                      [TempDir [] ''minishift-asset-download-''])
       | None \<Rightarrow> (r, tr @ [RemoveAll (tempName env)]))"
    by (simp add: DownloadOcpVersionFromMirror_def perform_def f Let_def split: option.splits)
  have req: "HttpDo u a \<in> set (snd (DownloadOcpVersionFromMirror env ''v3.7.0'' WINDOWS ''/out'' [])) \<Longrightarrow>
      HttpDo u a \<in> set tr"
    by (simp add: run split: option.splits)
  have fin: "fst (DownloadOcpVersionFromMirror env ''v3.7.0'' WINDOWS ''/out'' []) = None \<Longrightarrow>
      r = None \<and> snd (DownloadOcpVersionFromMirror env ''v3.7.0'' WINDOWS ''/out'' []) =
        tr @ [RemoveAll (tempName env)]"
    by (simp add: run split: option.splits)
  show ?thesis
  proof (intro conjI impI)
    show "mirrorURL ''v3.7.0'' WINDOWS = OMURL @ ''3.7.0/windows/oc.zip''"
      by (rule u)
  next
    assume "HttpDo u a \<in> set (snd (DownloadOcpVersionFromMirror env ''v3.7.0'' WINDOWS ''/out'' []))"
    then have "HttpDo u a \<in> set tr" by (rule req)
    then show "u = OMURL @ ''3.7.0/windows/oc.zip''" using h by blast
  next
    assume "HttpDo u a \<in> set (snd (DownloadOcpVersionFromMirror env ''v3.7.0'' WINDOWS ''/out'' []))"
    then have "HttpDo u a \<in> set tr" by (rule req)
    then show "a = None" using h by blast
  next
    assume "fst (DownloadOcpVersionFromMirror env ''v3.7.0'' WINDOWS ''/out'' []) = None"
    then have d: "r = None" "snd (DownloadOcpVersionFromMirror env ''v3.7.0'' WINDOWS ''/out'' []) =
        tr @ [RemoveAll (tempName env)]"
      using fin by simp_all
    show "snd (DownloadOcpVersionFromMirror env ''v3.7.0'' WINDOWS ''/out'' []) =
        [TempDir [] ''minishift-asset-download-'',
         NewRequest (OMURL @ ''3.7.0/windows/oc.zip''),
         HttpDo (OMURL @ ''3.7.0/windows/oc.zip'') None,
         Create (Join [tempName env, ''oc.zip'']),
         CopyBody (Join [tempName env, ''oc.zip'']),
         Unzip (Join [tempName env, ''oc.zip'']) (tempName env),
         MkdirAll ''/out'' perm0755,
         Open (Join [tempName env, ''oc.exe'']),
         Create ''/out/oc.exe'',
         CopyFile (Join [tempName env, ''oc.exe'']) ''/out/oc.exe'',
         Sync ''/out/oc.exe'',
         Chmod ''/out/oc.exe'' perm0777,
         RemoveAll (tempName env)]"
      unfolding d(2) s[OF d(1)] by simp
  qed
qed

theorem windows_download_scenario_witness:
  "fst (DownloadOcpVersionFromMirror (host nothingFails [''oc.exe'', ''oc.zip''])
          ''v3.7.0'' WINDOWS ''/out'' []) = None \<and>
   HttpDo (OMURL @ ''3.7.0/windows/oc.zip'') None \<in>
     set (snd (DownloadOcpVersionFromMirror (host nothingFails [''oc.exe'', ''oc.zip''])
                 ''v3.7.0'' WINDOWS ''/out'' [])) \<and>
   Chmod ''/out/oc.exe'' perm0777 \<in>
     set (snd (DownloadOcpVersionFromMirror (host nothingFails [''oc.exe'', ''oc.zip''])
                 ''v3.7.0'' WINDOWS ''/out'' []))"
  using windows_download_scenario [of "OMURL @ ''3.7.0/windows/oc.zip''" None
      "host nothingFails [''oc.exe'', ''oc.zip'']"]
  by (simp add: run_win)

subsection \<open>The listing of the extracted archive\<close>

lemma copy_opens: "Open s \<in> set (snd (copy env s d tr))"
  by (auto simp add: copy_def perform_def split: option.splits)

lemma copy_error_prefix:
  "copy env s d tr = (Some err, tr') \<Longrightarrow> take 6 err = ''Cannot''"
  by (auto simp add: copy_def perform_def split: option.splits)

lemma fetchInto_tar_listing:
  assumes W: "osType \<noteq> WINDOWS"
    and R: "ReadDir (tempName env) \<in> set (snd (fetchInto env version osType outputPath (tempName env) tr))"
    and N: "ReadDir (tempName env) \<notin> set tr"
  shows "(\<exists>ok. download env (mirrorURL version osType) (Join [tempName env, targetFileOf osType]) [] [] tr =
           (Inr ok, tr @ [NewRequest (mirrorURL version osType), HttpDo (mirrorURL version osType) None,
              Create (Join [tempName env, targetFileOf osType]),
              CopyBody (Join [tempName env, targetFileOf osType])])) \<and>
         fails env (Ungzip (Join [tempName env, targetFileOf osType])
           (take (length (Join [tempName env, targetFileOf osType]) - 3)
              (Join [tempName env, targetFileOf osType]))) = None \<and>
         fails env (Untar (take (length (Join [tempName env, targetFileOf osType]) - 3)
              (Join [tempName env, targetFileOf osType])) (tempName env)) = None"
proof -
  define asset where "asset = Join [tempName env, targetFileOf osType]"
  define r1 where "r1 = fst (download env (mirrorURL version osType) asset [] [] tr)"
  define tr1 where "tr1 = snd (download env (mirrorURL version osType) asset [] [] tr)"
  have d: "download env (mirrorURL version osType) asset [] [] tr = (r1, tr1)"
    by (simp add: r1_def tr1_def)
  have sub: "ReadDir (tempName env) \<notin> set tr1"
    using download_ops[of env "mirrorURL version osType" asset tr] N by (auto simp add: tr1_def)
  have tar: "HasSuffix asset TAR"
    unfolding asset_def by (rule asset_tar[OF W])
  note x = extract_tar[OF tar, of env tr1]
  have R': "ReadDir (tempName env) \<in> set (snd (fetchInto env version osType outputPath (tempName env) tr))"
    by (rule R)
  show ?thesis
  proof (cases r1)
    case (Inl err)
    then have "snd (fetchInto env version osType outputPath (tempName env) tr) = tr1"
      by (simp add: fetchInto_def d asset_def[symmetric] Let_def)
    then show ?thesis using R' sub by simp
  next
    case r1: (Inr ok)
    have t1: "tr1 = tr @ [NewRequest (mirrorURL version osType), HttpDo (mirrorURL version osType) None,
              Create asset, CopyBody asset]"
      using download_done d r1 by blast
    have u1: "fails env (Ungzip asset (take (length asset - 3) asset)) = None"
    proof (rule ccontr)
      assume "fails env (Ungzip asset (take (length asset - 3) asset)) \<noteq> None"
      then have "snd (fetchInto env version osType outputPath (tempName env) tr) =
          tr1 @ [Ungzip asset (take (length asset - 3) asset)]"
        by (simp add: fetchInto_def d r1 asset_def[symmetric] x Let_def)
      then show False using R' sub by simp
    qed
    have u2: "fails env (Untar (take (length asset - 3) asset) (tempName env)) = None"
    proof (rule ccontr)
      assume "fails env (Untar (take (length asset - 3) asset) (tempName env)) \<noteq> None"
      then have "snd (fetchInto env version osType outputPath (tempName env) tr) =
          tr1 @ [Ungzip asset (take (length asset - 3) asset),
                 Untar (take (length asset - 3) asset) (tempName env)]"
        using u1 by (simp add: fetchInto_def d r1 asset_def[symmetric] x Let_def)
      then show False using R' sub by simp
    qed
    show ?thesis
      using d r1 t1 u1 u2 by (simp add: asset_def)
  qed
qed

text \<open>
  With nothing but the two archive files in the temporary directory, the \<open>tar.gz\<close> path
  raises no error about the listing: it creates the output directory and fails only when
  it opens the binary to copy it.
\<close>

theorem empty_extraction_is_not_a_layout_error_counterexample:
  "LINUX \<noteq> WINDOWS \<and>
   nonArchive (host binaryMissing [''oc.tar'', ''oc.tar.gz'']) = [] \<and>
   DownloadOcpVersionFromMirror (host binaryMissing [''oc.tar'', ''oc.tar.gz''])
     ''v3.7.0'' LINUX ''/out'' [] =
   (Some ''Cannot open src file: /tmp/minishift-asset-download-042/oc'',
    [TempDir [] ''minishift-asset-download-'',
     NewRequest (OMURL @ ''3.7.0/linux/oc.tar.gz''),
     HttpDo (OMURL @ ''3.7.0/linux/oc.tar.gz'') None,
     Create ''/tmp/minishift-asset-download-042/oc.tar.gz'',
     CopyBody ''/tmp/minishift-asset-download-042/oc.tar.gz'',
     Ungzip ''/tmp/minishift-asset-download-042/oc.tar.gz'' ''/tmp/minishift-asset-download-042/oc.tar'',
     Untar ''/tmp/minishift-asset-download-042/oc.tar'' ''/tmp/minishift-asset-download-042'',
     ReadDir ''/tmp/minishift-asset-download-042'',
     MkdirAll ''/out'' perm0755,
     Open ''/tmp/minishift-asset-download-042/oc'',
     RemoveAll ''/tmp/minishift-asset-download-042''])"
  by (simp add: run_none na_none) (simp add: LINUX_def WINDOWS_def)

text \<open>
  C2 (as the code has it). On the \<open>tar.gz\<close> path, when the run gets as far as listing the
  temporary directory and the listing succeeds: with two or more entries that the pattern
  does not exclude, the run returns the unexpected-number error and has performed nothing
  after the listing but the removal of the temporary directory (no directory created, no
  copy, no change of mode); with at most one such entry, zero included, that error is not
  returned and the run goes on to \<open>MkdirAll\<close> on the output directory and, unless
  \<open>MkdirAll\<close> fails with an error other than already-exists, to open the binary \<open>oc\<close> in
  the temporary directory for the copy.
\<close>

theorem tar_layout_check:
  assumes W: "osType \<noteq> WINDOWS"
    and R: "ReadDir (tempName env) \<in> set (snd (DownloadOcpVersionFromMirror env version osType outputPath []))"
    and K: "fails env (ReadDir (tempName env)) = None"
  shows "(1 < length (nonArchive env) \<longrightarrow>
           DownloadOcpVersionFromMirror env version osType outputPath [] =
             (Some (''Unexpected number of files in tmp directory: '' @ showStrings (nonArchive env)),
              [TempDir [] ''minishift-asset-download-'',
               NewRequest (mirrorURL version osType),
               HttpDo (mirrorURL version osType) None,
               Create (Join [tempName env, ''oc.tar.gz'']),
               CopyBody (Join [tempName env, ''oc.tar.gz'']),
               Ungzip (Join [tempName env, ''oc.tar.gz''])
                 (take (length (Join [tempName env, ''oc.tar.gz'']) - 3) (Join [tempName env, ''oc.tar.gz''])),
               Untar (take (length (Join [tempName env, ''oc.tar.gz'']) - 3) (Join [tempName env, ''oc.tar.gz'']))
                 (tempName env),
               ReadDir (tempName env),
               RemoveAll (tempName env)])) \<and>
         (length (nonArchive env) \<le> 1 \<longrightarrow>
           MkdirAll outputPath perm0755 \<in>
             set (snd (DownloadOcpVersionFromMirror env version osType outputPath [])) \<and>
           fst (DownloadOcpVersionFromMirror env version osType outputPath []) \<noteq>
             Some (''Unexpected number of files in tmp directory: '' @ showStrings (nonArchive env)) \<and>
           ((case fails env (MkdirAll outputPath perm0755) of
               None \<Rightarrow> True | Some err \<Rightarrow> IsExist env err) \<longrightarrow>
              Open (Join [tempName env, ''oc'']) \<in>
                set (snd (DownloadOcpVersionFromMirror env version osType outputPath []))))"
proof -
  define asset where "asset = Join [tempName env, targetFileOf osType]"
  define tarFile where "tarFile = take (length asset - 3) asset"
  define start where "start = [TempDir [] ''minishift-asset-download-'']"
  define fetched where "fetched = fetchInto env version osType outputPath (tempName env) start"
  have t: "targetFileOf osType = ''oc.tar.gz''"
    using W by (simp add: targetFileOf_def extensionOf_def TAR_def)
  have run: "DownloadOcpVersionFromMirror env version osType outputPath [] =
      (case fails env (TempDir [] ''minishift-asset-download-'') of
         Some err \<Rightarrow> (Some ''Cannot create temporary download directory.'', start)
       | None \<Rightarrow> (fst fetched, snd fetched @ [RemoveAll (tempName env)]))"
    by (simp add: DownloadOcpVersionFromMirror_def perform_def fetched_def start_def Let_def
        split: option.splits prod.splits)
  have T: "fails env (TempDir [] ''minishift-asset-download-'') = None"
    using R by (cases "fails env (TempDir [] ''minishift-asset-download-'')") (simp_all add: run start_def)
  have run': "DownloadOcpVersionFromMirror env version osType outputPath [] =
      (fst fetched, snd fetched @ [RemoveAll (tempName env)])"
    by (simp add: run T)
  have Rf: "ReadDir (tempName env) \<in> set (snd (fetchInto env version osType outputPath (tempName env) start))"
    using R by (simp add: run' fetched_def)
  have N: "ReadDir (tempName env) \<notin> set start"
    by (simp add: start_def)
  from fetchInto_tar_listing[OF W Rf N]
  obtain ok where d: "download env (mirrorURL version osType) asset [] [] start =
           (Inr ok, start @ [NewRequest (mirrorURL version osType), HttpDo (mirrorURL version osType) None,
              Create asset, CopyBody asset])"
    and u1: "fails env (Ungzip asset tarFile) = None"
    and u2: "fails env (Untar tarFile (tempName env)) = None"
    unfolding asset_def tarFile_def by blast
  define listed where "listed = start @ [NewRequest (mirrorURL version osType),
      HttpDo (mirrorURL version osType) None, Create asset, CopyBody asset,
      Ungzip asset tarFile, Untar tarFile (tempName env), ReadDir (tempName env)]"
  have tar: "HasSuffix asset TAR"
    unfolding asset_def by (rule asset_tar[OF W])
  have x: "extractAsset env asset (tempName env)
      (start @ [NewRequest (mirrorURL version osType), HttpDo (mirrorURL version osType) None,
              Create asset, CopyBody asset]) =
      (if 1 < length (nonArchive env)
       then (Inl (''Unexpected number of files in tmp directory: '' @ showStrings (nonArchive env)), listed)
       else (Inr (tempName env), listed))"
    using u1 u2 K by (simp add: extract_tar[OF tar] tarFile_def[symmetric] listed_def Let_def)
  have many: "1 < length (nonArchive env) \<Longrightarrow> fetched =
      (Some (''Unexpected number of files in tmp directory: '' @ showStrings (nonArchive env)), listed)"
    by (simp add: fetched_def fetchInto_def asset_def[symmetric] d x Let_def)
  have few: "length (nonArchive env) \<le> 1 \<Longrightarrow> MkdirAll outputPath perm0755 \<in> set (snd fetched) \<and>
      (\<forall>e. fst fetched = Some e \<longrightarrow> take 6 e = ''Cannot'') \<and>
      ((case fails env (MkdirAll outputPath perm0755) of
          None \<Rightarrow> True | Some err \<Rightarrow> IsExist env err) \<longrightarrow>
        Open (Join [tempName env, finalBinaryName osType]) \<in> set (snd fetched))"
  proof -
    assume le: "length (nonArchive env) \<le> 1"
    define r3 where "r3 = fst (copy env (Join [tempName env, finalBinaryName osType])
        (Join [outputPath, finalBinaryName osType]) (listed @ [MkdirAll outputPath perm0755]))"
    define tr3 where "tr3 = snd (copy env (Join [tempName env, finalBinaryName osType])
        (Join [outputPath, finalBinaryName osType]) (listed @ [MkdirAll outputPath perm0755]))"
    have c: "copy env (Join [tempName env, finalBinaryName osType])
        (Join [outputPath, finalBinaryName osType]) (listed @ [MkdirAll outputPath perm0755]) = (r3, tr3)"
      by (simp add: r3_def tr3_def)
    have m: "MkdirAll outputPath perm0755 \<in> set tr3"
      using copy_keeps'[OF c, of "MkdirAll outputPath perm0755"] by simp
    have ce: "r3 = Some e \<Longrightarrow> take 6 e = ''Cannot''" for e
      using copy_error_prefix c by blast
    have op: "Open (Join [tempName env, finalBinaryName osType]) \<in> set tr3"
      using copy_opens[of "Join [tempName env, finalBinaryName osType]" env
          "Join [outputPath, finalBinaryName osType]" "listed @ [MkdirAll outputPath perm0755]"]
      by (simp add: tr3_def)
    show ?thesis
      using le m ce op
      by (cases r3)
         (simp_all add: fetched_def fetchInto_def asset_def[symmetric] d x c Let_def perform_def
            split: option.splits)
  qed
  show ?thesis
  proof (intro conjI impI)
    assume g: "1 < length (nonArchive env)"
    show "DownloadOcpVersionFromMirror env version osType outputPath [] =
             (Some (''Unexpected number of files in tmp directory: '' @ showStrings (nonArchive env)),
              [TempDir [] ''minishift-asset-download-'',
               NewRequest (mirrorURL version osType),
               HttpDo (mirrorURL version osType) None,
               Create (Join [tempName env, ''oc.tar.gz'']),
               CopyBody (Join [tempName env, ''oc.tar.gz'']),
               Ungzip (Join [tempName env, ''oc.tar.gz''])
                 (take (length (Join [tempName env, ''oc.tar.gz'']) - 3) (Join [tempName env, ''oc.tar.gz''])),
               Untar (take (length (Join [tempName env, ''oc.tar.gz'']) - 3) (Join [tempName env, ''oc.tar.gz'']))
                 (tempName env),
               ReadDir (tempName env),
               RemoveAll (tempName env)])"
      unfolding run' many[OF g]
      by (simp add: listed_def start_def tarFile_def asset_def t)
  next
    assume "length (nonArchive env) \<le> 1"
    then show "MkdirAll outputPath perm0755 \<in>
        set (snd (DownloadOcpVersionFromMirror env version osType outputPath []))"
      using few by (simp add: run')
  next
    assume "length (nonArchive env) \<le> 1"
    then have "\<forall>e. fst fetched = Some e \<longrightarrow> take 6 e = ''Cannot''"
      using few by blast
    then show "fst (DownloadOcpVersionFromMirror env version osType outputPath []) \<noteq>
        Some (''Unexpected number of files in tmp directory: '' @ showStrings (nonArchive env))"
      by (auto simp add: run')
  next
    assume "length (nonArchive env) \<le> 1"
      and "case fails env (MkdirAll outputPath perm0755) of
             None \<Rightarrow> True | Some err \<Rightarrow> IsExist env err"
    then have "Open (Join [tempName env, finalBinaryName osType]) \<in> set (snd fetched)"
      using few by blast
    then show "Open (Join [tempName env, ''oc'']) \<in>
        set (snd (DownloadOcpVersionFromMirror env version osType outputPath []))"
      using W by (simp add: run' finalBinaryName_def)
  qed
qed

theorem tar_layout_check_witness:
  "DARWIN \<noteq> WINDOWS \<and> LINUX \<noteq> WINDOWS \<and>
   1 < length (nonArchive (host nothingFails [''LICENSE'', ''README.md'', ''oc'', ''oc.tar'', ''oc.tar.gz''])) \<and>
   fst (DownloadOcpVersionFromMirror
          (host nothingFails [''LICENSE'', ''README.md'', ''oc'', ''oc.tar'', ''oc.tar.gz''])
          ''v3.7.0'' DARWIN ''/out'' []) =
     Some ''Unexpected number of files in tmp directory: [LICENSE README.md oc]'' \<and>
   length (nonArchive (host binaryMissing [''oc.tar'', ''oc.tar.gz''])) = 0 \<and>
   fails (host binaryMissing [''oc.tar'', ''oc.tar.gz'']) (MkdirAll ''/out'' perm0755) = None \<and>
   MkdirAll ''/out'' perm0755 \<in>
     set (snd (DownloadOcpVersionFromMirror (host binaryMissing [''oc.tar'', ''oc.tar.gz''])
                 ''v3.7.0'' LINUX ''/out'' [])) \<and>
   Open ''/tmp/minishift-asset-download-042/oc'' \<in>
     set (snd (DownloadOcpVersionFromMirror (host binaryMissing [''oc.tar'', ''oc.tar.gz''])
                 ''v3.7.0'' LINUX ''/out'' []))"
proof -
  have w1: "DARWIN \<noteq> WINDOWS" and w2: "LINUX \<noteq> WINDOWS"
    by (simp_all add: DARWIN_def LINUX_def WINDOWS_def)
  have k1: "fails (host nothingFails es) (ReadDir (tempName (host nothingFails es))) = None" for es
    by (simp add: host_def nothingFails_def)
  have k2: "fails (host binaryMissing es) (ReadDir (tempName (host binaryMissing es))) = None" for es
    by (simp add: host_def binaryMissing_def)
  have m: "fails (host binaryMissing es) (MkdirAll ''/out'' perm0755) = None" for es
    by (simp add: host_def binaryMissing_def)
  have r1: "ReadDir (tempName (host nothingFails [''LICENSE'', ''README.md'', ''oc'', ''oc.tar'', ''oc.tar.gz'']))
      \<in> set (snd (DownloadOcpVersionFromMirror
          (host nothingFails [''LICENSE'', ''README.md'', ''oc'', ''oc.tar'', ''oc.tar.gz''])
          ''v3.7.0'' DARWIN ''/out'' []))"
    by (simp add: run_many) (simp add: host_def)
  have r2: "ReadDir (tempName (host binaryMissing [''oc.tar'', ''oc.tar.gz'']))
      \<in> set (snd (DownloadOcpVersionFromMirror (host binaryMissing [''oc.tar'', ''oc.tar.gz''])
          ''v3.7.0'' LINUX ''/out'' []))"
    by (simp add: run_none) (simp add: host_def)
  show ?thesis
    using tar_layout_check [OF w1 r1 k1] tar_layout_check [OF w2 r2 k2] w1 w2
    by (simp add: na_many na_none showStrings_def m host_paths)
qed

end
